theory Spec2Isabelle
  imports Complex_Main
begin

section \<open>Python values used by monitor_server.py\<close>

text \<open>
  A Python float is a finite number, NaN or one of the two infinities. Finite floats are
  modelled as real numbers: the arithmetic of the selectors (sum, division, comparison) is
  taken exactly, rounding error and overflow of IEEE doubles are outside the model.
  A sensor's \<open>Value\<close> is \<open>None\<close> or such a float.
\<close>

datatype pyfloat = Finite real | NaN | PosInf | NegInf

datatype py_error = ValueError | ZeroDivisionError | TypeError | AttributeError | OSError

text \<open>\<open>math.isfinite\<close>.\<close>

fun isfinite :: "pyfloat \<Rightarrow> bool" where
  "isfinite (Finite r) = True"
| "isfinite NaN = False"
| "isfinite PosInf = False"
| "isfinite NegInf = False"

text \<open>
  \<open>HardwareMonitorReader._is_finite\<close>: \<open>None\<close> is rejected first, then \<open>math.isfinite(float(value))\<close>
  decides; \<open>float\<close> of a float does not raise, so the \<open>except\<close> branch is not taken.
\<close>

fun is_finite :: "pyfloat option \<Rightarrow> bool" where
  "is_finite None = False"
| "is_finite (Some v) = isfinite v"

text \<open>
  \<open>float(sensor.Value)\<close> as a real. Every call in the source is guarded by \<open>_is_finite\<close>, so
  only the finite case is given an equation.
\<close>

fun float_value :: "pyfloat option \<Rightarrow> real" where
  "float_value (Some (Finite r)) = r"
| "float_value _ = undefined"

subsection \<open>Strings\<close>

text \<open>\<open>str.lower\<close> on ASCII letters (sensor names and the keywords matched are ASCII).\<close>

definition lower_char :: "char \<Rightarrow> char" where
  "lower_char c =
     (case map_of (zip ''ABCDEFGHIJKLMNOPQRSTUVWXYZ'' ''abcdefghijklmnopqrstuvwxyz'') c of
        Some d \<Rightarrow> d
      | None \<Rightarrow> c)"

definition lower :: "string \<Rightarrow> string" where
  "lower s = map lower_char s"

text \<open>\<open>s.startswith(p)\<close> and the substring test \<open>sub in s\<close>.\<close>

definition startswith :: "string \<Rightarrow> string \<Rightarrow> bool" where
  "startswith s p = (take (length p) s = p)"

fun contains :: "string \<Rightarrow> string \<Rightarrow> bool" where
  "contains sub [] = (sub = [])"
| "contains sub (c # cs) = (startswith (c # cs) sub \<or> contains sub cs)"

text \<open>\<open>any(k in name for k in keys)\<close>.\<close>

definition any_in :: "string list \<Rightarrow> string \<Rightarrow> bool" where
  "any_in keys name = list_ex (\<lambda>k. contains k name) keys"

text \<open>
  \<open>str.strip()\<close>: ASCII whitespace is removed from both ends. Python also removes the
  whitespace beyond ASCII (U+0085, U+00A0 and others), which the names and keys matched
  here do not contain.
\<close>

definition is_space :: "char \<Rightarrow> bool" where
  "is_space c = (let n = (of_char c :: nat) in n = 32 \<or> (9 \<le> n \<and> n \<le> 13) \<or> (28 \<le> n \<and> n \<le> 31))"

definition strip :: "string \<Rightarrow> string" where
  "strip s = rev (dropWhile is_space (rev (dropWhile is_space s)))"

subsection \<open>Aggregates\<close>

text \<open>
  \<open>max(xs)\<close> raises \<open>ValueError\<close> on an empty list; otherwise it scans from the left and
  replaces the running maximum by a strictly greater item. \<open>sum(xs) / len(xs)\<close> raises
  \<open>ZeroDivisionError\<close> on an empty list.
\<close>

definition py_max :: "real list \<Rightarrow> py_error + real" where
  "py_max xs = (case xs of [] \<Rightarrow> Inl ValueError
                | x # ys \<Rightarrow> Inr (foldl (\<lambda>m y. if m < y then y else m) x ys))"

definition py_avg :: "real list \<Rightarrow> py_error + real" where
  "py_avg xs = (if length xs = 0 then Inl ZeroDivisionError
                else Inr (sum_list xs / real (length xs)))"

text \<open>Sequencing of computations that may raise: the first error propagates.\<close>

definition bind_r :: "py_error + 'a \<Rightarrow> ('a \<Rightarrow> py_error + 'b) \<Rightarrow> py_error + 'b" where
  "bind_r m f = (case m of Inl e \<Rightarrow> Inl e | Inr x \<Rightarrow> f x)"

text \<open>\<open>agg(xs) if xs else None\<close>: the aggregate is taken of a non-empty list only.\<close>

definition if_nonempty :: "(real list \<Rightarrow> py_error + real) \<Rightarrow> real list \<Rightarrow> py_error + real option" where
  "if_nonempty agg xs = (if xs \<noteq> [] then bind_r (agg xs) (\<lambda>v. Inr (Some v)) else Inr None)"

text \<open>\<open>s.endswith(p)\<close>.\<close>

definition endswith :: "string \<Rightarrow> string \<Rightarrow> bool" where
  "endswith s p = (drop (length s - length p) s = p)"

text \<open>\<open>x or ""\<close> for an optional string, and \<open>a or b\<close> for two optional enum members.\<close>

fun or_empty :: "string option \<Rightarrow> string" where
  "or_empty None = []"
| "or_empty (Some s) = s"

fun py_or :: "'a option \<Rightarrow> 'a option \<Rightarrow> 'a option" where
  "py_or (Some a) b = Some a"
| "py_or None b = b"

section \<open>The provider: hardware, sensors and the two enums\<close>

text \<open>
  Modelled from the spec: the enums \<open>HardwareType\<close> and \<open>SensorType\<close> belong to the
  hardware-monitoring library, which is not part of the repository. The device kinds are
  CPU, Mainboard, Memory, the vendor-tagged GPUs, Network, Storage and the rest; the
  measurement kinds are Temperature, Load, Clock, Power, Data and the rest. The lookup
  \<open>getattr(enum, name, None)\<close> finds a member under each name the source tries for it.
\<close>

datatype hardware_type =
  Cpu | Mainboard | Memory | GpuNvidia | GpuAti | GpuAmd | GpuAmdRadeon | GpuIntel
  | Network | Storage | OtherHardware

datatype sensor_type = Temperature | Load | Clock | Power | Data | OtherSensor

definition HardwareType_getattr :: "string \<Rightarrow> hardware_type option" where
  "HardwareType_getattr =
     map_of [(''Cpu'', Cpu), (''CPU'', Cpu), (''Mainboard'', Mainboard),
             (''Motherboard'', Mainboard), (''Memory'', Memory), (''RAM'', Memory),
             (''Network'', Network), (''GpuNvidia'', GpuNvidia), (''GpuAti'', GpuAti),
             (''GpuAmd'', GpuAmd), (''GpuAmdRadeon'', GpuAmdRadeon), (''GpuIntel'', GpuIntel),
             (''Storage'', Storage)]"

definition SensorType_getattr :: "string \<Rightarrow> sensor_type option" where
  "SensorType_getattr =
     map_of [(''Temperature'', Temperature), (''Load'', Load), (''Clock'', Clock),
             (''Power'', Power), (''Data'', Data)]"

text \<open>\<open>sensor.SensorType.__str__()\<close>: the member's name.\<close>

fun sensor_type_str :: "sensor_type \<Rightarrow> string" where
  "sensor_type_str Temperature = ''Temperature''"
| "sensor_type_str Load = ''Load''"
| "sensor_type_str Clock = ''Clock''"
| "sensor_type_str Power = ''Power''"
| "sensor_type_str Data = ''Data''"
| "sensor_type_str OtherSensor = ''Other''"

record sensor =
  SensorType :: sensor_type
  Name :: "string option"
  Value :: "pyfloat option"

datatype hardware =
  Hardware (HardwareType: hardware_type) (Sensors: "sensor list") (SubHardware: "hardware list")

text \<open>
  An element of the flattened list: \<open>(hardware, sensor, parent_hardware)\<close>. Every hardware
  object of the provider has a \<open>HardwareType\<close>, so \<open>getattr(parent, "HardwareType", None)\<close>
  is that type and never the default.
\<close>

type_synonym entry = "hardware \<times> sensor \<times> hardware"

text \<open>
  \<open>_collect_sensors\<close>: the sensors of each top-level device, then those of each of its
  sub-devices, whose parent is the top-level device.
\<close>

definition collect_sensors :: "hardware list \<Rightarrow> entry list" where
  "collect_sensors computer =
     concat (map (\<lambda>hardware.
        map (\<lambda>sensor. (hardware, sensor, hardware)) (Sensors hardware) @
        concat (map (\<lambda>sub. map (\<lambda>sensor. (sub, sensor, hardware)) (Sensors sub))
                    (SubHardware hardware)))
       computer)"

text \<open>The enum members cached by \<open>HardwareMonitorReader.__init__\<close>.\<close>

record reader =
  HT_CPU :: "hardware_type option"
  HT_MAINBOARD :: "hardware_type option"
  HT_RAM :: "hardware_type option"
  HT_NETWORK :: "hardware_type option"
  ST_TEMP :: "sensor_type option"
  ST_LOAD :: "sensor_type option"
  ST_CLOCK :: "sensor_type option"
  ST_POWER :: "sensor_type option"
  ST_DATA :: "sensor_type option"

definition init_reader :: reader where
  "init_reader =
     \<lparr> HT_CPU = py_or (HardwareType_getattr ''Cpu'') (HardwareType_getattr ''CPU''),
       HT_MAINBOARD = py_or (HardwareType_getattr ''Mainboard'') (HardwareType_getattr ''Motherboard''),
       HT_RAM = py_or (HardwareType_getattr ''Memory'') (HardwareType_getattr ''RAM''),
       HT_NETWORK = HardwareType_getattr ''Network'',
       ST_TEMP = SensorType_getattr ''Temperature'',
       ST_LOAD = SensorType_getattr ''Load'',
       ST_CLOCK = SensorType_getattr ''Clock'',
       ST_POWER = SensorType_getattr ''Power'',
       ST_DATA = SensorType_getattr ''Data'' \<rparr>"

text \<open>The tests on a sensor's kind and on its parent's kind, as the selectors write them.\<close>

definition parent_is :: "hardware \<Rightarrow> hardware_type option \<Rightarrow> bool" where
  \<comment> \<open>\<open>getattr(parent, "HardwareType", None) == ht\<close>\<close>
  "parent_is parent ht = (Some (HardwareType parent) = ht)"

definition is_kind :: "sensor_type option \<Rightarrow> sensor \<Rightarrow> bool" where
  \<comment> \<open>\<open>st is None or sensor.SensorType == st\<close>\<close>
  "is_kind st sensor = (st = None \<or> Some (SensorType sensor) = st)"

definition is_kind_str :: "sensor_type option \<Rightarrow> string \<Rightarrow> sensor \<Rightarrow> bool" where
  \<comment> \<open>\<open>(st is not None and sensor.SensorType == st) or
      (st is None and sensor.SensorType.__str__().endswith(suffix))\<close>\<close>
  "is_kind_str st suffix sensor =
     ((st \<noteq> None \<and> Some (SensorType sensor) = st) \<or>
      (st = None \<and> endswith (sensor_type_str (SensorType sensor)) suffix))"

definition is_ram_hw :: "hardware \<Rightarrow> bool" where
  "is_ram_hw parent =
     (Some (HardwareType parent) \<in>
        set [HardwareType_getattr ''RAM'', HardwareType_getattr ''Memory''])"

definition gpu_types :: "hardware_type option list" where
  "gpu_types = [HardwareType_getattr ''GpuNvidia'', HardwareType_getattr ''GpuAti'',
                HardwareType_getattr ''GpuAmd'', HardwareType_getattr ''GpuAmdRadeon'',
                HardwareType_getattr ''GpuIntel'']"

text \<open>\<open>(sensor.Name or "").lower()\<close>.\<close>

definition lname :: "sensor \<Rightarrow> string" where
  "lname sensor = lower (or_empty (Name sensor))"

text \<open>\<open>if self._is_finite(sensor.Value): xs.append(float(sensor.Value))\<close>.\<close>

definition append_finite :: "sensor \<Rightarrow> real list \<Rightarrow> real list" where
  "append_finite sensor xs =
     (if is_finite (Value sensor) then xs @ [float_value (Value sensor)] else xs)"

section \<open>The selectors\<close>

subsection \<open>\<open>_select_cpu_temps\<close>\<close>

record cpu_temp_pools =
  core_sensor_temps :: "real list"
  ccd_sensor_temps :: "real list"
  package_temps :: "real list"
  mb_cpu_temps :: "real list"

definition cpu_temps_step :: "reader \<Rightarrow> entry \<Rightarrow> cpu_temp_pools \<Rightarrow> cpu_temp_pools" where
  "cpu_temps_step rd e p =
     (case e of (hw, sensor, parent) \<Rightarrow>
        if ST_TEMP rd \<noteq> None \<and> Some (SensorType sensor) \<noteq> ST_TEMP rd then p
        else
          let name = lname sensor in
          if parent_is parent (HT_CPU rd) then
            (if contains ''ccd'' name then
               p\<lparr>ccd_sensor_temps := append_finite sensor (ccd_sensor_temps p)\<rparr>
             else if contains ''core'' name then
               p\<lparr>core_sensor_temps := append_finite sensor (core_sensor_temps p)\<rparr>
             else if any_in [''package'', ''tdie'', ''tctl'', ''cpu''] name then
               p\<lparr>package_temps := append_finite sensor (package_temps p)\<rparr>
             else p)
          else if parent_is parent (HT_MAINBOARD rd) then
            (if any_in [''cpu'', ''cpu socket'', ''package'', ''tdie'', ''tctl''] name then
               p\<lparr>mb_cpu_temps := append_finite sensor (mb_cpu_temps p)\<rparr>
             else p)
          else p)"

definition cpu_temp_pools_of :: "reader \<Rightarrow> entry list \<Rightarrow> cpu_temp_pools" where
  "cpu_temp_pools_of rd sensors =
     fold (cpu_temps_step rd) sensors
       \<lparr>core_sensor_temps = [], ccd_sensor_temps = [], package_temps = [], mb_cpu_temps = []\<rparr>"

text \<open>The two results are returned as \<open>(core_avg, hotspot)\<close>.\<close>

definition cpu_hotspot_of :: "cpu_temp_pools \<Rightarrow> py_error + real option" where
  "cpu_hotspot_of p =
     (if core_sensor_temps p \<noteq> [] then bind_r (py_max (core_sensor_temps p)) (\<lambda>v. Inr (Some v))
      else if package_temps p \<noteq> [] then bind_r (py_max (package_temps p)) (\<lambda>v. Inr (Some v))
      else if mb_cpu_temps p \<noteq> [] then bind_r (py_max (mb_cpu_temps p)) (\<lambda>v. Inr (Some v))
      else Inr None)"

definition cpu_core_avg_of :: "cpu_temp_pools \<Rightarrow> py_error + real option" where
  "cpu_core_avg_of p =
     (let vals = (if ccd_sensor_temps p \<noteq> [] then ccd_sensor_temps p
                  else if core_sensor_temps p \<noteq> [] then core_sensor_temps p
                  else if package_temps p \<noteq> [] then package_temps p
                  else if mb_cpu_temps p \<noteq> [] then mb_cpu_temps p
                  else [])
      in if_nonempty py_avg vals)"

definition select_cpu_temps :: "reader \<Rightarrow> entry list \<Rightarrow> py_error + (real option \<times> real option)" where
  "select_cpu_temps rd sensors =
     (let p = cpu_temp_pools_of rd sensors in
      bind_r (cpu_hotspot_of p) (\<lambda>hotspot.
      bind_r (cpu_core_avg_of p) (\<lambda>core_avg.
      Inr (core_avg, hotspot))))"

subsection \<open>\<open>_select_cpu_total_load\<close> and \<open>_select_cpu_core_clocks\<close>\<close>

definition is_cpu_load :: "reader \<Rightarrow> entry \<Rightarrow> bool" where
  "is_cpu_load rd e =
     (case e of (hw, sensor, parent) \<Rightarrow>
        parent_is parent (HT_CPU rd) \<and> is_kind (ST_LOAD rd) sensor)"

definition is_cpu_total :: "reader \<Rightarrow> entry \<Rightarrow> bool" where
  "is_cpu_total rd e =
     (case e of (hw, sensor, parent) \<Rightarrow>
        is_cpu_load rd e \<and>
        lower (strip (or_empty (Name sensor))) \<in> set [''cpu total'', ''total''] \<and>
        is_finite (Value sensor))"

text \<open>
  The first loop returns at the first usable sensor named "cpu total" or "total"; the
  second collects every usable CPU load.
\<close>

definition select_cpu_total_load :: "reader \<Rightarrow> entry list \<Rightarrow> py_error + real option" where
  "select_cpu_total_load rd sensors =
     (case find (is_cpu_total rd) sensors of
        Some (hw, sensor, parent) \<Rightarrow> Inr (Some (float_value (Value sensor)))
      | None \<Rightarrow>
          let loads = fold (\<lambda>e loads. case e of (hw, sensor, parent) \<Rightarrow>
                              if is_cpu_load rd e then append_finite sensor loads else loads)
                           sensors []
          in if_nonempty py_avg loads)"

definition is_cpu_clock :: "reader \<Rightarrow> entry \<Rightarrow> bool" where
  "is_cpu_clock rd e =
     (case e of (hw, sensor, parent) \<Rightarrow>
        parent_is parent (HT_CPU rd) \<and> is_kind (ST_CLOCK rd) sensor \<and>
        (let name = lname sensor in
         startswith name ''cpu core'' \<or> startswith name ''core'' \<or> contains ''clock'' name))"

text \<open>Returned as \<open>(max_clock, avg_clock)\<close>.\<close>

definition select_cpu_core_clocks :: "reader \<Rightarrow> entry list \<Rightarrow> py_error + (real option \<times> real option)" where
  "select_cpu_core_clocks rd sensors =
     (let clocks = fold (\<lambda>e clocks. case e of (hw, sensor, parent) \<Rightarrow>
                           if is_cpu_clock rd e then append_finite sensor clocks else clocks)
                        sensors []
      in if clocks \<noteq> [] then
           bind_r (py_max clocks) (\<lambda>max_clock.
           bind_r (py_avg clocks) (\<lambda>avg_clock.
           Inr (Some max_clock, Some avg_clock)))
         else Inr (None, None))"

subsection \<open>\<open>_select_ram_used_free_gb\<close> and \<open>_select_ram_usage\<close>\<close>

record ram_vars =
  used_gb :: "real option"
  free_gb :: "real option"
  load_percent :: "real option"

definition ram_load_name :: "string \<Rightarrow> bool" where
  "ram_load_name name =
     ((name = ''memory'' \<or> name = ''ram'') \<or>
      (contains ''memory'' name \<or> contains ''ram'' name) \<or>
      (contains ''load'' name \<or> contains ''usage'' name))"

definition ram_step :: "reader \<Rightarrow> entry \<Rightarrow> ram_vars \<Rightarrow> ram_vars" where
  "ram_step rd e v =
     (case e of (hw, sensor, parent) \<Rightarrow>
        if \<not> is_ram_hw parent then v
        else
          let name = lname sensor in
          if contains ''virtual'' name then v
          else
            let v1 = (if is_kind_str (ST_DATA rd) ''Data'' sensor then
                        (let a = (if contains ''used'' name \<and> is_finite (Value sensor)
                                  then v\<lparr>used_gb := Some (float_value (Value sensor))\<rparr> else v)
                         in if (contains ''available'' name \<or> contains ''free'' name) \<and>
                               is_finite (Value sensor)
                            then a\<lparr>free_gb := Some (float_value (Value sensor))\<rparr> else a)
                      else v)
            in if is_kind (ST_LOAD rd) sensor \<and> ram_load_name name then
                 (if is_finite (Value sensor)
                  then v1\<lparr>load_percent := Some (float_value (Value sensor))\<rparr> else v1)
               else v1)"

text \<open>Returned as \<open>(used_gb, free_gb, load_percent)\<close>.\<close>

definition select_ram_used_free_gb ::
  "reader \<Rightarrow> entry list \<Rightarrow> real option \<times> real option \<times> real option" where
  "select_ram_used_free_gb rd sensors =
     (let v = fold (ram_step rd) sensors \<lparr>used_gb = None, free_gb = None, load_percent = None\<rparr>
      in (used_gb v, free_gb v, load_percent v))"

definition is_ram_load :: "reader \<Rightarrow> entry \<Rightarrow> bool" where
  "is_ram_load rd e =
     (case e of (hw, sensor, parent) \<Rightarrow>
        is_ram_hw parent \<and> is_kind (ST_LOAD rd) sensor \<and> is_finite (Value sensor))"

definition ram_usage_step :: "reader \<Rightarrow> entry \<Rightarrow> real option \<times> real option \<Rightarrow> real option \<times> real option" where
  "ram_usage_step rd e ua =
     (case e of (hw, sensor, parent) \<Rightarrow>
      case ua of (used, available) \<Rightarrow>
        if \<not> is_ram_hw parent then ua
        else if is_kind_str (ST_DATA rd) ''Data'' sensor then
          (let name = lname sensor;
               used1 = (if contains ''used'' name \<and> is_finite (Value sensor)
                        then Some (float_value (Value sensor)) else used);
               available1 = (if contains ''available'' name \<and> is_finite (Value sensor)
                             then Some (float_value (Value sensor)) else available)
           in (used1, available1))
        else ua)"

text \<open>
  \<open>_select_ram_usage\<close> is defined in the class; \<open>read_metrics\<close> does not call it. The final
  division cannot raise: it is guarded by \<open>used + available > 0\<close>.
\<close>

definition select_ram_usage :: "reader \<Rightarrow> entry list \<Rightarrow> real option" where
  "select_ram_usage rd sensors =
     (case find (is_ram_load rd) sensors of
        Some (hw, sensor, parent) \<Rightarrow> Some (float_value (Value sensor))
      | None \<Rightarrow>
          (case fold (ram_usage_step rd) sensors (None, None) of
             (Some used, Some available) \<Rightarrow>
               if used + available > 0 then Some (used / (used + available) * 100) else None
           | _ \<Rightarrow> None))"

subsection \<open>\<open>_select_gpu_metrics\<close>\<close>

record gpu_pools =
  temps :: "real list"
  hotspot_temps :: "real list"
  loads :: "real list"
  powers :: "real list"
  core_clocks :: "real list"
  mem_clocks :: "real list"

definition gpu_temp_step :: "reader \<Rightarrow> sensor \<Rightarrow> gpu_pools \<Rightarrow> gpu_pools" where
  "gpu_temp_step rd sensor p =
     (if is_kind (ST_TEMP rd) sensor then
        (let name = lname sensor in
         if any_in [''hot spot'', ''hotspot'', ''junction''] name
         then p\<lparr>hotspot_temps := append_finite sensor (hotspot_temps p)\<rparr>
         else p\<lparr>temps := append_finite sensor (temps p)\<rparr>)
      else p)"

definition gpu_load_step :: "reader \<Rightarrow> sensor \<Rightarrow> gpu_pools \<Rightarrow> gpu_pools" where
  "gpu_load_step rd sensor p =
     (if is_kind (ST_LOAD rd) sensor then
        (let name = lname sensor in
         if contains ''core'' name \<or> name \<in> set [''gpu core'', ''gpu'']
         then p\<lparr>loads := append_finite sensor (loads p)\<rparr>
         else p)
      else p)"

definition gpu_power_step :: "reader \<Rightarrow> sensor \<Rightarrow> gpu_pools \<Rightarrow> gpu_pools" where
  "gpu_power_step rd sensor p =
     (if is_kind_str (ST_POWER rd) ''Power'' sensor
      then p\<lparr>powers := append_finite sensor (powers p)\<rparr>
      else p)"

definition gpu_clock_step :: "reader \<Rightarrow> sensor \<Rightarrow> gpu_pools \<Rightarrow> gpu_pools" where
  "gpu_clock_step rd sensor p =
     (if is_kind (ST_CLOCK rd) sensor then
        (let name = lname sensor in
         if contains ''memory'' name \<and> is_finite (Value sensor)
         then p\<lparr>mem_clocks := mem_clocks p @ [float_value (Value sensor)]\<rparr>
         else if (contains ''gpu core'' name \<or> contains ''core'' name) \<and> is_finite (Value sensor)
         then p\<lparr>core_clocks := core_clocks p @ [float_value (Value sensor)]\<rparr>
         else p)
      else p)"

definition gpu_step :: "reader \<Rightarrow> entry \<Rightarrow> gpu_pools \<Rightarrow> gpu_pools" where
  "gpu_step rd e p =
     (case e of (hw, sensor, parent) \<Rightarrow>
        if Some (HardwareType parent) \<in> set gpu_types then
          gpu_clock_step rd sensor
            (gpu_power_step rd sensor (gpu_load_step rd sensor (gpu_temp_step rd sensor p)))
        else p)"

definition gpu_pools_of :: "reader \<Rightarrow> entry list \<Rightarrow> gpu_pools" where
  "gpu_pools_of rd sensors =
     fold (gpu_step rd) sensors
       \<lparr>temps = [], hotspot_temps = [], loads = [], powers = [], core_clocks = [], mem_clocks = []\<rparr>"

text \<open>Returned as \<open>(core_temp, hotspot, load, power, core_clock, mem_clock)\<close>.\<close>

definition select_gpu_metrics ::
  "reader \<Rightarrow> entry list \<Rightarrow>
   py_error + (real option \<times> real option \<times> real option \<times> real option \<times> real option \<times> real option)" where
  "select_gpu_metrics rd sensors =
     (let p = gpu_pools_of rd sensors in
      bind_r (if_nonempty py_max (temps p)) (\<lambda>core_temp.
      bind_r (if_nonempty py_max (hotspot_temps p)) (\<lambda>hotspot.
      bind_r (if_nonempty py_max (loads p)) (\<lambda>load.
      bind_r (if_nonempty py_max (powers p)) (\<lambda>power.
      bind_r (if_nonempty py_max (core_clocks p)) (\<lambda>core_clock.
      bind_r (if_nonempty py_max (mem_clocks p)) (\<lambda>mem_clock.
      Inr (core_temp, hotspot, load, power, core_clock, mem_clock))))))))"

section \<open>\<open>read_metrics\<close>\<close>

text \<open>
  \<open>round(x, digits)\<close> on a float rounds to the nearest multiple of \<open>10 ** -digits\<close>, a tie
  going to the even multiple. The source passes the digits 0 and 1 only. The model rounds
  the real number that stands for the float; a decimal tie whose float is not the exact
  decimal (2.675 is slightly less as a double) is rounded as a tie here.
\<close>

definition round_half_even :: "real \<Rightarrow> int" where
  "round_half_even y =
     (let f = \<lfloor>y\<rfloor>; d = y - of_int f
      in if d < 1 / 2 then f else if 1 / 2 < d then f + 1 else if even f then f else f + 1)"

definition py_round :: "real \<Rightarrow> nat \<Rightarrow> real" where
  "py_round x digits = of_int (round_half_even (x * 10 ^ digits)) / 10 ^ digits"

text \<open>\<open>_round_or_none\<close>: \<open>None\<close> stays \<open>None\<close>; \<open>round\<close> of a finite float does not raise.\<close>

fun round_or_none :: "real option \<Rightarrow> nat \<Rightarrow> real option" where
  "round_or_none None digits = None"
| "round_or_none (Some value) digits = Some (py_round value digits)"

text \<open>The network and CPU power loops written inside \<open>read_metrics\<close>.\<close>

definition net_step :: "reader \<Rightarrow> entry \<Rightarrow> real list \<Rightarrow> real list" where
  "net_step rd e net_load_values =
     (case e of (hw, sensor, parent) \<Rightarrow>
        if parent_is parent (HT_NETWORK rd) \<and> is_kind (ST_LOAD rd) sensor then
          (if is_finite (Value sensor) then
             (let val = float_value (Value sensor) in
              if 0 \<le> val \<and> val \<le> 100 then net_load_values @ [val] else net_load_values)
           else net_load_values)
        else net_load_values)"

definition cpu_power_step :: "reader \<Rightarrow> entry \<Rightarrow> real list \<Rightarrow> real list" where
  "cpu_power_step rd e cpu_powers =
     (case e of (hw, sensor, parent) \<Rightarrow>
        if parent_is parent (HT_CPU rd) \<and> is_kind_str (ST_POWER rd) ''Power'' sensor then
          (if any_in [''package'', ''cpu'', ''ppt'', ''socket'', ''total''] (lname sensor)
           then append_finite sensor cpu_powers else cpu_powers)
        else cpu_powers)"

text \<open>The snapshot: the nested dictionary, one record per group.\<close>

record cpu_metrics =
  cpu_core_temperature_c :: "real option"
  cpu_hotspot_temperature_c :: "real option"
  cpu_usage_percent :: "real option"
  cpu_max_clock_mhz :: "real option"
  cpu_avg_clock_mhz :: "real option"
  cpu_power_w :: "real option"

record ram_metrics =
  ram_usage_percent :: "real option"
  ram_used_gb :: "real option"
  ram_free_gb :: "real option"

record gpu_metrics =
  gpu_core_temperature_c :: "real option"
  gpu_hotspot_temperature_c :: "real option"
  gpu_usage_percent :: "real option"
  gpu_core_clock_mhz :: "real option"
  gpu_memory_clock_mhz :: "real option"
  gpu_power_w :: "real option"

record net_metrics =
  net_usage_percent :: "real option"

record snapshot =
  cpu :: cpu_metrics
  ram :: ram_metrics
  gpu :: gpu_metrics
  net :: net_metrics
  timestamp :: real

text \<open>
  The values selected by \<open>read_metrics\<close> before rounding, in the order the source computes
  them.
\<close>

record raw_metrics =
  raw_cpu_core_temp :: "real option"
  raw_cpu_hotspot_temp :: "real option"
  raw_cpu_load :: "real option"
  raw_cpu_clock_max_mhz :: "real option"
  raw_cpu_clock_avg_mhz :: "real option"
  raw_ram_used_gb :: "real option"
  raw_ram_free_gb :: "real option"
  raw_ram_usage :: "real option"
  raw_gpu_core_temp :: "real option"
  raw_gpu_hotspot_temp :: "real option"
  raw_gpu_load :: "real option"
  raw_gpu_power :: "real option"
  raw_gpu_core_clock :: "real option"
  raw_gpu_mem_clock :: "real option"
  raw_net_load :: "real option"
  raw_cpu_power :: "real option"

definition select_all :: "reader \<Rightarrow> entry list \<Rightarrow> py_error + raw_metrics" where
  "select_all rd sensors =
     bind_r (select_cpu_temps rd sensors) (\<lambda>(cpu_core_temp, cpu_hotspot_temp).
     bind_r (select_cpu_total_load rd sensors) (\<lambda>cpu_load.
     bind_r (select_cpu_core_clocks rd sensors) (\<lambda>(cpu_clock_max_mhz, cpu_clock_avg_mhz).
     case select_ram_used_free_gb rd sensors of (ram_used, ram_free, ram_usage) \<Rightarrow>
     bind_r (select_gpu_metrics rd sensors)
       (\<lambda>(gpu_core_temp, gpu_hotspot_temp, gpu_load, gpu_power, gpu_core_clock, gpu_mem_clock).
     bind_r (if_nonempty py_max (fold (net_step rd) sensors [])) (\<lambda>net_load.
     bind_r (if_nonempty py_max (fold (cpu_power_step rd) sensors [])) (\<lambda>cpu_power.
     Inr \<lparr> raw_cpu_core_temp = cpu_core_temp, raw_cpu_hotspot_temp = cpu_hotspot_temp,
           raw_cpu_load = cpu_load, raw_cpu_clock_max_mhz = cpu_clock_max_mhz,
           raw_cpu_clock_avg_mhz = cpu_clock_avg_mhz, raw_ram_used_gb = ram_used,
           raw_ram_free_gb = ram_free, raw_ram_usage = ram_usage,
           raw_gpu_core_temp = gpu_core_temp, raw_gpu_hotspot_temp = gpu_hotspot_temp,
           raw_gpu_load = gpu_load, raw_gpu_power = gpu_power,
           raw_gpu_core_clock = gpu_core_clock, raw_gpu_mem_clock = gpu_mem_clock,
           raw_net_load = net_load, raw_cpu_power = cpu_power \<rparr>))))))"

text \<open>The dictionary returned by \<open>read_metrics\<close>; \<open>now\<close> is the value of \<open>time.time()\<close>.\<close>

definition build_snapshot :: "raw_metrics \<Rightarrow> real \<Rightarrow> snapshot" where
  "build_snapshot r now =
     \<lparr> cpu = \<lparr> cpu_core_temperature_c = round_or_none (raw_cpu_core_temp r) 1,
               cpu_hotspot_temperature_c = round_or_none (raw_cpu_hotspot_temp r) 1,
               cpu_usage_percent = round_or_none (raw_cpu_load r) 1,
               cpu_max_clock_mhz = round_or_none (raw_cpu_clock_max_mhz r) 0,
               cpu_avg_clock_mhz = round_or_none (raw_cpu_clock_avg_mhz r) 0,
               cpu_power_w = round_or_none (raw_cpu_power r) 1 \<rparr>,
       ram = \<lparr> ram_usage_percent = round_or_none (raw_ram_usage r) 1,
               ram_used_gb = round_or_none (raw_ram_used_gb r) 1,
               ram_free_gb = round_or_none (raw_ram_free_gb r) 1 \<rparr>,
       gpu = \<lparr> gpu_core_temperature_c = round_or_none (raw_gpu_core_temp r) 1,
               gpu_hotspot_temperature_c = round_or_none (raw_gpu_hotspot_temp r) 1,
               gpu_usage_percent = round_or_none (raw_gpu_load r) 1,
               gpu_core_clock_mhz = round_or_none (raw_gpu_core_clock r) 0,
               gpu_memory_clock_mhz = round_or_none (raw_gpu_mem_clock r) 0,
               gpu_power_w = round_or_none (raw_gpu_power r) 1 \<rparr>,
       net = \<lparr> net_usage_percent = round_or_none (raw_net_load r) 1 \<rparr>,
       timestamp = now \<rparr>"

text \<open>
  \<open>read_metrics\<close> on the flattened sensor list, and on the provider's device tree as it
  stands after \<open>_update_all\<close> has refreshed it.
\<close>

definition read_metrics_from :: "reader \<Rightarrow> entry list \<Rightarrow> real \<Rightarrow> py_error + snapshot" where
  "read_metrics_from rd sensors now =
     bind_r (select_all rd sensors) (\<lambda>r. Inr (build_snapshot r now))"

definition read_metrics :: "reader \<Rightarrow> hardware list \<Rightarrow> real \<Rightarrow> py_error + snapshot" where
  "read_metrics rd computer now = read_metrics_from rd (collect_sensors computer) now"

text \<open>The snapshot without its timestamp.\<close>

definition metrics_of :: "snapshot \<Rightarrow> cpu_metrics \<times> ram_metrics \<times> gpu_metrics \<times> net_metrics" where
  "metrics_of s = (cpu s, ram s, gpu s, net s)"

section \<open>The reader object over the poll cycles\<close>

text \<open>
  The state of a \<open>HardwareMonitorReader\<close>: the enum members cached in its attributes and
  \<open>self.computer\<close>, the device tree of the provider. A method is a function of the object
  that returns the object as it leaves it, next to its result. \<open>__init__\<close> caches the
  members and opens the provider, whose device tree is then \<open>c\<close>.
\<close>

record monitor =
  enums :: reader
  computer :: "hardware list"

definition new_monitor :: "hardware list \<Rightarrow> monitor" where
  "new_monitor c = \<lparr>enums = init_reader, computer = c\<rparr>"

text \<open>
  \<open>_update_all\<close>. \<open>Update()\<close> belongs to the library: \<open>upd h\<close> is the device \<open>h\<close> as its
  \<open>Update\<close> leaves it, or \<open>None\<close> when the call raises. A device whose \<open>Update\<close> raises is
  skipped with its sub-devices; a sub-device whose \<open>Update\<close> raises is skipped alone.
\<close>

definition update_hardware :: "(hardware \<Rightarrow> hardware option) \<Rightarrow> hardware \<Rightarrow> hardware" where
  "update_hardware upd hardware =
     (case upd hardware of
        None \<Rightarrow> hardware
      | Some h \<Rightarrow>
          Hardware (HardwareType h) (Sensors h)
            (map (\<lambda>sub. case upd sub of None \<Rightarrow> sub | Some sub1 \<Rightarrow> sub1) (SubHardware h)))"

definition update_all :: "(hardware \<Rightarrow> hardware option) \<Rightarrow> monitor \<Rightarrow> monitor" where
  "update_all upd self = self\<lparr>computer := map (update_hardware upd) (computer self)\<rparr>"

definition collect_sensors_self :: "monitor \<Rightarrow> entry list \<times> monitor" where
  "collect_sensors_self self = (collect_sensors (computer self), self)"

text \<open>The selectors read the cached members of the object and assign none of its attributes.\<close>

definition select_cpu_temps_self ::
  "monitor \<Rightarrow> entry list \<Rightarrow> py_error + ((real option \<times> real option) \<times> monitor)" where
  "select_cpu_temps_self self sensors =
     bind_r (select_cpu_temps (enums self) sensors) (\<lambda>r. Inr (r, self))"

definition select_cpu_total_load_self ::
  "monitor \<Rightarrow> entry list \<Rightarrow> py_error + (real option \<times> monitor)" where
  "select_cpu_total_load_self self sensors =
     bind_r (select_cpu_total_load (enums self) sensors) (\<lambda>r. Inr (r, self))"

definition select_cpu_core_clocks_self ::
  "monitor \<Rightarrow> entry list \<Rightarrow> py_error + ((real option \<times> real option) \<times> monitor)" where
  "select_cpu_core_clocks_self self sensors =
     bind_r (select_cpu_core_clocks (enums self) sensors) (\<lambda>r. Inr (r, self))"

definition select_ram_used_free_gb_self ::
  "monitor \<Rightarrow> entry list \<Rightarrow> (real option \<times> real option \<times> real option) \<times> monitor" where
  "select_ram_used_free_gb_self self sensors =
     (select_ram_used_free_gb (enums self) sensors, self)"

definition select_gpu_metrics_self ::
  "monitor \<Rightarrow> entry list \<Rightarrow>
   py_error +
   ((real option \<times> real option \<times> real option \<times> real option \<times> real option \<times> real option) \<times>
    monitor)" where
  "select_gpu_metrics_self self sensors =
     bind_r (select_gpu_metrics (enums self) sensors) (\<lambda>r. Inr (r, self))"

text \<open>
  \<open>read_metrics\<close>, statement by statement, with the object handed from each call to the
  next; \<open>now\<close> is the value of \<open>time.time()\<close>.
\<close>

definition read_metrics_self ::
  "(hardware \<Rightarrow> hardware option) \<Rightarrow> monitor \<Rightarrow> real \<Rightarrow> py_error + (snapshot \<times> monitor)" where
  "read_metrics_self upd self now =
     (let self1 = update_all upd self in
      case collect_sensors_self self1 of (sensors, self2) \<Rightarrow>
      bind_r (select_cpu_temps_self self2 sensors) (\<lambda>((cpu_core_temp, cpu_hotspot_temp), self3).
      bind_r (select_cpu_total_load_self self3 sensors) (\<lambda>(cpu_load, self4).
      bind_r (select_cpu_core_clocks_self self4 sensors)
        (\<lambda>((cpu_clock_max_mhz, cpu_clock_avg_mhz), self5).
      case select_ram_used_free_gb_self self5 sensors of
        ((ram_used, ram_free, ram_usage), self6) \<Rightarrow>
      bind_r (select_gpu_metrics_self self6 sensors)
        (\<lambda>((gpu_core_temp, gpu_hotspot_temp, gpu_load, gpu_power, gpu_core_clock, gpu_mem_clock),
           self7).
      bind_r (if_nonempty py_max (fold (net_step (enums self7)) sensors [])) (\<lambda>net_load.
      bind_r (if_nonempty py_max (fold (cpu_power_step (enums self7)) sensors [])) (\<lambda>cpu_power.
      Inr (build_snapshot
             \<lparr> raw_cpu_core_temp = cpu_core_temp, raw_cpu_hotspot_temp = cpu_hotspot_temp,
               raw_cpu_load = cpu_load, raw_cpu_clock_max_mhz = cpu_clock_max_mhz,
               raw_cpu_clock_avg_mhz = cpu_clock_avg_mhz, raw_ram_used_gb = ram_used,
               raw_ram_free_gb = ram_free, raw_ram_usage = ram_usage,
               raw_gpu_core_temp = gpu_core_temp, raw_gpu_hotspot_temp = gpu_hotspot_temp,
               raw_gpu_load = gpu_load, raw_gpu_power = gpu_power,
               raw_gpu_core_clock = gpu_core_clock, raw_gpu_mem_clock = gpu_mem_clock,
               raw_net_load = net_load, raw_cpu_power = cpu_power \<rparr> now,
           self7))))))))"

text \<open>
  The states of the object over its life: as constructed, and as any poll cycle leaves
  it, whatever the provider reports in that cycle and whenever it runs.
\<close>

inductive reachable :: "monitor \<Rightarrow> bool" where
  start: "reachable (new_monitor c)"
| cycle: "reachable self \<Longrightarrow> read_metrics_self upd self now = Inr (s, self1) \<Longrightarrow> reachable self1"

text \<open>The metrics of a poll cycle, without the timestamp, and the object it leaves.\<close>

definition cycle_metrics ::
  "py_error + (snapshot \<times> monitor) \<Rightarrow> (cpu_metrics \<times> ram_metrics \<times> gpu_metrics \<times> net_metrics) option" where
  "cycle_metrics r = (case r of Inl e \<Rightarrow> None | Inr (s, self1) \<Rightarrow> Some (metrics_of s))"

definition cycle_timestamp :: "py_error + (snapshot \<times> monitor) \<Rightarrow> real option" where
  "cycle_timestamp r = (case r of Inl e \<Rightarrow> None | Inr (s, self1) \<Rightarrow> Some (timestamp s))"

definition cycle_object :: "py_error + (snapshot \<times> monitor) \<Rightarrow> monitor option" where
  "cycle_object r = (case r of Inl e \<Rightarrow> None | Inr (s, self1) \<Rightarrow> Some self1)"

section \<open>UI configuration\<close>

definition SENSOR_KEYS_DEFAULT :: "string list" where
  "SENSOR_KEYS_DEFAULT =
     [''cpu_core_temp'', ''cpu_hotspot_temp'', ''cpu_usage'', ''net_load'', ''cpu_clock_max'',
      ''cpu_clock_avg'', ''cpu_power'', ''ram_usage'', ''ram_used'', ''ram_free'',
      ''gpu_core_temp'', ''gpu_hotspot_temp'', ''gpu_clock'', ''gpu_mem_clock'', ''gpu_usage'',
      ''gpu_power'']"

definition ALIAS_TO_CANON :: "string \<rightharpoonup> string" where
  "ALIAS_TO_CANON = map_of [(''cpu_temp'', ''cpu_core_temp'')]"

definition CANON_TO_EXTERNAL :: "string \<rightharpoonup> string" where
  "CANON_TO_EXTERNAL = Map.empty"

text \<open>\<open>d.get(key, key)\<close>.\<close>

definition get_or_key :: "(string \<rightharpoonup> string) \<Rightarrow> string \<Rightarrow> string" where
  "get_or_key d key = (case d key of Some v \<Rightarrow> v | None \<Rightarrow> key)"

text \<open>\<open>_normalize_order\<close>: the first loop carries \<open>seen\<close> and \<open>normalized\<close>, the second appends
  the keys of the default order that were not seen.\<close>

definition normalize_step :: "string \<Rightarrow> string set \<times> string list \<Rightarrow> string set \<times> string list" where
  "normalize_step key sn =
     (case sn of (seen, normalized) \<Rightarrow>
        let canon = get_or_key ALIAS_TO_CANON key in
        if canon \<in> set SENSOR_KEYS_DEFAULT \<and> canon \<notin> seen
        then (insert canon seen, normalized @ [canon])
        else (seen, normalized))"

definition normalize_order :: "string list \<Rightarrow> string list" where
  "normalize_order order_in =
     (case fold normalize_step order_in ({}, []) of (seen, normalized) \<Rightarrow>
        fold (\<lambda>key normalized. if key \<notin> seen then normalized @ [key] else normalized)
             SENSOR_KEYS_DEFAULT normalized)"

text \<open>The global \<open>UI_CONFIG\<close>; both keys are present from its initialisation on.\<close>

record ui_config =
  cfg_order :: "string list"
  cfg_update_interval_sec :: real

definition default_ui_config :: ui_config where
  "default_ui_config = \<lparr>cfg_order = SENSOR_KEYS_DEFAULT, cfg_update_interval_sec = 1\<rparr>"

subsection \<open>The file config.ini\<close>

text \<open>
  \<open>s.split(sep)\<close> for a one-character separator and \<open>sep.join(xs)\<close>. The result of
  \<open>split_on\<close> is never empty, so the last case of its second equation is not reached.
\<close>

fun split_on :: "char \<Rightarrow> string \<Rightarrow> string list" where
  "split_on sep [] = [[]]"
| "split_on sep (c # cs) =
     (if c = sep then [] # split_on sep cs
      else (case split_on sep cs of w # ws \<Rightarrow> (c # w) # ws | [] \<Rightarrow> [[c]]))"

fun join :: "string \<Rightarrow> string list \<Rightarrow> string" where
  "join sep [] = []"
| "join sep [x] = x"
| "join sep (x # y # ys) = x @ sep @ join sep (y # ys)"

text \<open>
  The text stored under \<open>update_interval_sec\<close> is represented by what \<open>float\<close> makes of it:
  the number it denotes, or no number at all (\<open>float\<close> raises). \<open>f"{val:.3f}"\<close> writes the
  value rounded to three fraction digits.
\<close>

datatype interval_text = Decimal real | NotNumeric

definition format_3f :: "real \<Rightarrow> interval_text" where
  "format_3f val = Decimal (py_round val 3)"

text \<open>
  The options of section \<open>[ui]\<close>; the file is absent, unparsable, or holds the section or
  not. An option is the text that \<open>cfg.get\<close> returns for it; a text on which \<open>cfg.get\<close>
  raises (a bare percent sign) is not represented.
\<close>

record ui_section =
  opt_order :: "string option"
  opt_update_interval_sec :: "interval_text option"

datatype config_file = NoFile | Malformed | Ini "ui_section option"

record disk =
  config_ini :: config_file
  writable :: bool

text \<open>\<open>[s.strip() for s in order_str.split(",") if s.strip()]\<close>.\<close>

definition parse_order :: "string \<Rightarrow> string list" where
  "parse_order order_str =
     map strip (filter (\<lambda>s. strip s \<noteq> []) (split_on CHR '','' order_str))"

definition load_ui_config :: "config_file \<Rightarrow> ui_config" where
  "load_ui_config f =
     (case f of
        NoFile \<Rightarrow> default_ui_config
      | Malformed \<Rightarrow> default_ui_config
      | Ini None \<Rightarrow> default_ui_config
      | Ini (Some sec) \<Rightarrow>
          \<lparr> cfg_order =
              normalize_order (parse_order (case opt_order sec of None \<Rightarrow> '','' | Some t \<Rightarrow> t)),
            cfg_update_interval_sec =
              (case (case opt_update_interval_sec sec of None \<Rightarrow> Decimal 1 | Some t \<Rightarrow> t) of
                 Decimal r \<Rightarrow> max (5 / 100) r
               | NotNumeric \<Rightarrow> 1) \<rparr>)"

text \<open>
  \<open>save_ui_config\<close>: the existing file is read (an unreadable one counts as empty), the
  section is added when missing, the given options are set, and the file is written;
  \<open>open(CONFIG_PATH, "w")\<close> raises when the file cannot be written. The interval passed is a
  float, on which \<open>float\<close> does not raise.
\<close>

definition save_ui_config :: "string list option \<Rightarrow> real option \<Rightarrow> disk \<Rightarrow> py_error + disk" where
  "save_ui_config order_arg interval_arg d =
     (let sec0 = (case config_ini d of
                    Ini (Some sec) \<Rightarrow> sec
                  | _ \<Rightarrow> \<lparr>opt_order = None, opt_update_interval_sec = None\<rparr>);
          sec1 = (case order_arg of
                    None \<Rightarrow> sec0
                  | Some ord \<Rightarrow>
                      sec0\<lparr>opt_order :=
                             Some (join '','' (map (get_or_key CANON_TO_EXTERNAL) (normalize_order ord)))\<rparr>);
          sec2 = (case interval_arg of
                    None \<Rightarrow> sec1
                  | Some v \<Rightarrow> sec1\<lparr>opt_update_interval_sec := Some (format_3f (max (5 / 100) v))\<rparr>)
      in if writable d then Inr (d\<lparr>config_ini := Ini (Some sec2)\<rparr>) else Inl OSError)"

subsection \<open>\<open>config_view\<close>\<close>

text \<open>
  The request body as \<open>config_view\<close> sees it. \<open>json.loads\<close> raises, or yields a value that is
  not an object (then \<open>payload.get\<close> raises \<open>AttributeError\<close>, which the view does not catch),
  or yields an object. Of the object only two entries are read. \<open>order\<close> is \<open>None\<close> (or
  missing), not a list, or a list, given by the \<open>str\<close> of its elements. \<open>update_interval_sec\<close>
  is \<open>None\<close> (or missing), a value that \<open>float\<close> converts to the finite number given, or a
  value on which \<open>float\<close> raises; a value that \<open>float\<close> converts to NaN or an infinity is
  not represented.
\<close>

datatype order_field = OrderNone | OrderNotList | OrderList "string list"

datatype interval_field = IntervalNone | IntervalNumber real | IntervalInvalid

record payload =
  pl_order :: order_field
  pl_update_interval_sec :: interval_field

datatype request_body = InvalidJSON | NotAnObject | Object payload

record request =
  http_method :: string
  body :: request_body

datatype response =
  ConfigResponse "string list" real
  | OkTrue
  | ErrorResponse string nat

record server =
  UI_CONFIG :: ui_config
  files :: disk

text \<open>The two updates of \<open>UI_CONFIG\<close> that \<open>config_view\<close> makes before it saves.\<close>

definition apply_payload :: "payload \<Rightarrow> ui_config \<Rightarrow> ui_config" where
  "apply_payload pl c =
     (let c1 = (case pl_order pl of
                  OrderList xs \<Rightarrow> c\<lparr>cfg_order := normalize_order xs\<rparr>
                | _ \<Rightarrow> c)
      in case pl_update_interval_sec pl of
           IntervalNumber v \<Rightarrow> c1\<lparr>cfg_update_interval_sec := max (5 / 100) v\<rparr>
         | _ \<Rightarrow> c1)"

definition config_view :: "request \<Rightarrow> server \<Rightarrow> py_error + (response \<times> server)" where
  "config_view req st =
     (if http_method req = ''GET'' then
        Inr (ConfigResponse (cfg_order (UI_CONFIG st)) (cfg_update_interval_sec (UI_CONFIG st)), st)
      else
        case body req of
          InvalidJSON \<Rightarrow> Inr (ErrorResponse ''Invalid JSON'' 400, st)
        | NotAnObject \<Rightarrow> Inl AttributeError
        | Object pl \<Rightarrow>
            (let c = apply_payload pl (UI_CONFIG st)
             in (case save_ui_config (Some (cfg_order c)) (Some (cfg_update_interval_sec c))
                        (files st) of
                   Inl e \<Rightarrow>
                     Inr (ErrorResponse ''Failed to save config'' 500, st\<lparr>UI_CONFIG := c\<rparr>)
                 | Inr d \<Rightarrow> Inr (OkTrue, st\<lparr>UI_CONFIG := c, files := d\<rparr>))))"

section \<open>Notions used to state the properties\<close>

text \<open>
  A pool is the list of the usable values of the sensors that satisfy a test, in the order
  of the sensor list; an aggregate of an empty pool is absent.
\<close>

definition usable :: "entry \<Rightarrow> bool" where
  "usable e = (case e of (hw, sensor, parent) \<Rightarrow> is_finite (Value sensor))"

definition pool :: "(entry \<Rightarrow> bool) \<Rightarrow> entry list \<Rightarrow> real list" where
  "pool P sensors =
     map (\<lambda>(hw, sensor, parent). float_value (Value sensor))
         (filter (\<lambda>e. usable e \<and> P e) sensors)"

definition max_opt :: "real list \<Rightarrow> real option" where
  "max_opt xs = (if xs = [] then None else Some (Max (set xs)))"

definition avg_opt :: "real list \<Rightarrow> real option" where
  "avg_opt xs = (if xs = [] then None else Some (sum_list xs / real (length xs)))"

fun first_nonempty :: "real list list \<Rightarrow> real list" where
  "first_nonempty [] = []"
| "first_nonempty (xs # rest) = (if xs \<noteq> [] then xs else first_nonempty rest)"

text \<open>The four CPU temperature pools, by the kind of the parent device and the name.\<close>

definition cpu_temp_sensor :: "entry \<Rightarrow> bool" where
  "cpu_temp_sensor e =
     (case e of (hw, sensor, parent) \<Rightarrow>
        HardwareType parent = Cpu \<and> SensorType sensor = Temperature)"

definition in_ccd_pool :: "entry \<Rightarrow> bool" where
  "in_ccd_pool e =
     (case e of (hw, sensor, parent) \<Rightarrow> cpu_temp_sensor e \<and> contains ''ccd'' (lname sensor))"

definition in_core_pool :: "entry \<Rightarrow> bool" where
  "in_core_pool e =
     (case e of (hw, sensor, parent) \<Rightarrow>
        cpu_temp_sensor e \<and> \<not> contains ''ccd'' (lname sensor) \<and> contains ''core'' (lname sensor))"

definition in_package_pool :: "entry \<Rightarrow> bool" where
  "in_package_pool e =
     (case e of (hw, sensor, parent) \<Rightarrow>
        cpu_temp_sensor e \<and> \<not> contains ''ccd'' (lname sensor) \<and>
        \<not> contains ''core'' (lname sensor) \<and>
        any_in [''package'', ''tdie'', ''tctl'', ''cpu''] (lname sensor))"

definition in_mb_cpu_pool :: "entry \<Rightarrow> bool" where
  "in_mb_cpu_pool e =
     (case e of (hw, sensor, parent) \<Rightarrow>
        HardwareType parent = Mainboard \<and> SensorType sensor = Temperature \<and>
        any_in [''cpu'', ''cpu socket'', ''package'', ''tdie'', ''tctl''] (lname sensor))"

text \<open>The two GPU temperature pools.\<close>

definition gpu_temp_sensor :: "entry \<Rightarrow> bool" where
  "gpu_temp_sensor e =
     (case e of (hw, sensor, parent) \<Rightarrow>
        HardwareType parent \<in> {GpuNvidia, GpuAti, GpuAmd, GpuAmdRadeon, GpuIntel} \<and>
        SensorType sensor = Temperature)"

definition hotspot_name :: "string \<Rightarrow> bool" where
  "hotspot_name name =
     (contains ''hot spot'' name \<or> contains ''hotspot'' name \<or> contains ''junction'' name)"

definition in_gpu_hotspot_pool :: "entry \<Rightarrow> bool" where
  "in_gpu_hotspot_pool e =
     (case e of (hw, sensor, parent) \<Rightarrow> gpu_temp_sensor e \<and> hotspot_name (lname sensor))"

definition in_gpu_core_pool :: "entry \<Rightarrow> bool" where
  "in_gpu_core_pool e =
     (case e of (hw, sensor, parent) \<Rightarrow> gpu_temp_sensor e \<and> \<not> hotspot_name (lname sensor))"

text \<open>The network pool: load sensors of network devices with a value within 0 and 100.\<close>

definition in_net_pool :: "entry \<Rightarrow> bool" where
  "in_net_pool e =
     (case e of (hw, sensor, parent) \<Rightarrow>
        HardwareType parent = Network \<and> SensorType sensor = Load \<and>
        0 \<le> float_value (Value sensor) \<and> float_value (Value sensor) \<le> 100)"

text \<open>
  A field rounded to \<open>digits\<close> decimals: absent when the raw value is, else a multiple of
  \<open>10 ^ -digits\<close> at most half a unit of the last place away from the raw value.
\<close>

definition rounded_to :: "nat \<Rightarrow> real option \<Rightarrow> real option \<Rightarrow> bool" where
  "rounded_to digits raw out =
     (case raw of
        None \<Rightarrow> out = None
      | Some x \<Rightarrow>
          (\<exists>k::int. out = Some (of_int k / 10 ^ digits) \<and>
                    \<bar>of_int k / 10 ^ digits - x\<bar> \<le> 1 / (2 * 10 ^ digits)))"

text \<open>What a snapshot computation yields under a projection, when it does not raise.\<close>

definition field_of :: "(snapshot \<Rightarrow> 'a) \<Rightarrow> py_error + snapshot \<Rightarrow> 'a option" where
  "field_of f r = (case r of Inl e \<Rightarrow> None | Inr s \<Rightarrow> Some (f s))"


text \<open>
  The keys of an order list that are recognised once the alias is mapped, each kept at its
  first occurrence.
\<close>

fun first_occurrences :: "string list \<Rightarrow> string list" where
  "first_occurrences [] = []"
| "first_occurrences (x # xs) = x # filter (\<lambda>y. y \<noteq> x) (first_occurrences xs)"

definition recognized_first :: "string list \<Rightarrow> string list" where
  "recognized_first order_in =
     first_occurrences (filter (\<lambda>k. k \<in> set SENSOR_KEYS_DEFAULT)
                               (map (get_or_key ALIAS_TO_CANON) order_in))"

text \<open>
  The interval a load of the file yields, and the states in which that is the in-memory
  interval as \<open>save_ui_config\<close> writes it (clamped, three fraction digits): the states
  reached from a start without a file and after every successful write.
\<close>

definition persisted_interval :: "disk \<Rightarrow> real" where
  "persisted_interval d = cfg_update_interval_sec (load_ui_config (config_ini d))"

definition in_sync :: "server \<Rightarrow> bool" where
  "in_sync st =
     (persisted_interval (files st) =
        py_round (max (5 / 100) (cfg_update_interval_sec (UI_CONFIG st))) 3)"

text \<open>A write request with the given payload.\<close>

definition post :: "order_field \<Rightarrow> interval_field \<Rightarrow> request" where
  "post ord iv =
     \<lparr>http_method = ''POST'', body = Object \<lparr>pl_order = ord, pl_update_interval_sec = iv\<rparr>\<rparr>"

text \<open>
  What a request leaves behind: the response, the in-memory interval and the interval a
  load of the file yields. The server as it starts without a configuration file.
\<close>

definition outcome :: "py_error + (response \<times> server) \<Rightarrow> (response \<times> real \<times> real) option" where
  "outcome r =
     (case r of
        Inl e \<Rightarrow> None
      | Inr (resp, st) \<Rightarrow>
          Some (resp, cfg_update_interval_sec (UI_CONFIG st), persisted_interval (files st)))"

definition fresh_server :: server where
  "fresh_server =
     \<lparr>UI_CONFIG = load_ui_config NoFile, files = \<lparr>config_ini = NoFile, writable = True\<rparr>\<rparr>"


text \<open>Sensors and devices for the worked examples.\<close>

definition reading :: "sensor_type \<Rightarrow> string \<Rightarrow> pyfloat option \<Rightarrow> sensor" where
  "reading t n v = \<lparr>SensorType = t, Name = Some n, Value = v\<rparr>"

definition device :: "hardware_type \<Rightarrow> sensor list \<Rightarrow> hardware" where
  "device t ss = Hardware t ss []"

section \<open>Basic facts\<close>

lemma init_reader_fields:
  "HT_CPU init_reader = Some Cpu" "HT_MAINBOARD init_reader = Some Mainboard"
  "HT_RAM init_reader = Some Memory" "HT_NETWORK init_reader = Some Network"
  "ST_TEMP init_reader = Some Temperature" "ST_LOAD init_reader = Some Load"
  "ST_CLOCK init_reader = Some Clock" "ST_POWER init_reader = Some Power"
  "ST_DATA init_reader = Some Data"
  by (simp_all add: init_reader_def HardwareType_getattr_def SensorType_getattr_def)

lemma is_ram_hw_iff: "is_ram_hw parent \<longleftrightarrow> HardwareType parent = Memory"
  by (auto simp: is_ram_hw_def HardwareType_getattr_def)

lemma gpu_types_iff:
  "Some t \<in> set gpu_types \<longleftrightarrow> t \<in> {GpuNvidia, GpuAti, GpuAmd, GpuAmdRadeon, GpuIntel}"
  by (auto simp: gpu_types_def HardwareType_getattr_def)

lemma foldl_max: "foldl (\<lambda>m y. if m < y then y else m) x ys = Max (insert (x::real) (set ys))"
proof (induction ys arbitrary: x)
  case Nil
  then show ?case by simp
next
  case (Cons y ys)
  have "Max (insert (if x < y then y else x) (set ys)) = Max (insert x (insert y (set ys)))"
    by (cases "set ys = {}") (auto simp: max_def)
  then show ?case using Cons by simp
qed

lemma py_max_nonempty: "xs \<noteq> [] \<Longrightarrow> py_max xs = Inr (Max (set xs))"
  by (cases xs) (simp_all add: py_max_def foldl_max)

lemma if_nonempty_max: "if_nonempty py_max xs = Inr (max_opt xs)"
  by (simp add: if_nonempty_def max_opt_def py_max_nonempty bind_r_def)

lemma if_nonempty_avg: "if_nonempty py_avg xs = Inr (avg_opt xs)"
  by (simp add: if_nonempty_def avg_opt_def py_avg_def bind_r_def)

lemma pool_Nil: "pool P [] = []"
  by (simp add: pool_def)

lemma pool_Cons:
  "pool P ((hw, sensor, parent) # es) =
     (if is_finite (Value sensor) \<and> P (hw, sensor, parent)
      then float_value (Value sensor) # pool P es else pool P es)"
  by (simp add: pool_def usable_def)

lemma cpu_pool_tests:
  "in_ccd_pool (hw, sensor, parent) \<longleftrightarrow>
     HardwareType parent = Cpu \<and> SensorType sensor = Temperature \<and> contains ''ccd'' (lname sensor)"
  "in_core_pool (hw, sensor, parent) \<longleftrightarrow>
     HardwareType parent = Cpu \<and> SensorType sensor = Temperature \<and>
     \<not> contains ''ccd'' (lname sensor) \<and> contains ''core'' (lname sensor)"
  "in_package_pool (hw, sensor, parent) \<longleftrightarrow>
     HardwareType parent = Cpu \<and> SensorType sensor = Temperature \<and>
     \<not> contains ''ccd'' (lname sensor) \<and> \<not> contains ''core'' (lname sensor) \<and>
     any_in [''package'', ''tdie'', ''tctl'', ''cpu''] (lname sensor)"
  "in_mb_cpu_pool (hw, sensor, parent) \<longleftrightarrow>
     HardwareType parent = Mainboard \<and> SensorType sensor = Temperature \<and>
     any_in [''cpu'', ''cpu socket'', ''package'', ''tdie'', ''tctl''] (lname sensor)"
  by (simp_all add: in_ccd_pool_def in_core_pool_def in_package_pool_def in_mb_cpu_pool_def
      cpu_temp_sensor_def)

lemma cpu_pools_fold:
  "fold (cpu_temps_step init_reader) sensors p =
     \<lparr> core_sensor_temps = core_sensor_temps p @ pool in_core_pool sensors,
       ccd_sensor_temps = ccd_sensor_temps p @ pool in_ccd_pool sensors,
       package_temps = package_temps p @ pool in_package_pool sensors,
       mb_cpu_temps = mb_cpu_temps p @ pool in_mb_cpu_pool sensors \<rparr>"
proof (induction sensors arbitrary: p)
  case Nil
  then show ?case by (simp add: pool_Nil)
next
  case (Cons e es)
  obtain hw sensor parent where e: "e = (hw, sensor, parent)" by (cases e) auto
  show ?case
    unfolding e fold_simps Cons.IH
    by (simp add: pool_Cons cpu_temps_step_def init_reader_fields parent_is_def append_finite_def
        cpu_pool_tests Let_def)
qed

lemma cpu_temp_pools_of_init:
  "cpu_temp_pools_of init_reader sensors =
     \<lparr> core_sensor_temps = pool in_core_pool sensors,
       ccd_sensor_temps = pool in_ccd_pool sensors,
       package_temps = pool in_package_pool sensors,
       mb_cpu_temps = pool in_mb_cpu_pool sensors \<rparr>"
  by (simp add: cpu_temp_pools_of_def cpu_pools_fold)

lemma select_cpu_temps_init:
  "select_cpu_temps init_reader sensors =
     Inr (avg_opt (first_nonempty [pool in_ccd_pool sensors, pool in_core_pool sensors,
                                   pool in_package_pool sensors, pool in_mb_cpu_pool sensors]),
          max_opt (first_nonempty [pool in_core_pool sensors, pool in_package_pool sensors,
                                   pool in_mb_cpu_pool sensors]))"
  by (simp add: select_cpu_temps_def cpu_temp_pools_of_init cpu_hotspot_of_def cpu_core_avg_of_def
      if_nonempty_avg py_max_nonempty bind_r_def max_opt_def Let_def)

lemma pool_filter: "pool P (filter Q sensors) = pool (\<lambda>e. Q e \<and> P e) sensors"
  by (simp add: pool_def conj_commute conj_left_commute)

lemma pool_cong: "(\<And>e. e \<in> set sensors \<Longrightarrow> usable e \<Longrightarrow> P e = Q e) \<Longrightarrow> pool P sensors = pool Q sensors"
  unfolding pool_def by (rule arg_cong[where f = "map _"], rule filter_cong) auto

lemmas eval_names = lname_def lower_def lower_char_def startswith_def any_in_def

subsection \<open>Rounding\<close>

lemma round_half_even_bounds: "\<bar>of_int (round_half_even y) - y\<bar> \<le> 1 / 2"
  unfolding round_half_even_def Let_def by (auto simp: abs_if) linarith+

lemma py_round_rounded: "rounded_to d (Some x) (Some (py_round x d))"
proof -
  let ?k = "round_half_even (x * 10 ^ d)"
  have b: "\<bar>of_int ?k - x * 10 ^ d\<bar> \<le> 1 / 2" by (rule round_half_even_bounds)
  have p: "(0::real) < 10 ^ d" by simp
  have "\<bar>of_int ?k / 10 ^ d - x\<bar> = \<bar>of_int ?k - x * 10 ^ d\<bar> / 10 ^ d"
    using p by (simp add: field_simps)
  also have "\<dots> \<le> (1 / 2) / 10 ^ d" by (rule divide_right_mono[OF b]) simp
  finally have "\<bar>of_int ?k / 10 ^ d - x\<bar> \<le> 1 / (2 * 10 ^ d)" by simp
  then show ?thesis unfolding rounded_to_def py_round_def by auto
qed

lemma round_or_none_rounded: "rounded_to d raw (round_or_none raw d)"
  by (cases raw) (simp_all add: py_round_rounded, simp add: rounded_to_def)

subsection \<open>Unusable values leave every loop unchanged\<close>


















lemma cpu_hotspot_of_eq:
  "cpu_hotspot_of p = Inr (max_opt (first_nonempty [core_sensor_temps p, package_temps p, mb_cpu_temps p]))"
  by (simp add: cpu_hotspot_of_def py_max_nonempty bind_r_def max_opt_def)

lemma cpu_core_avg_of_eq:
  "cpu_core_avg_of p = Inr (avg_opt (first_nonempty [ccd_sensor_temps p, core_sensor_temps p, package_temps p, mb_cpu_temps p]))"
  by (simp add: cpu_core_avg_of_def if_nonempty_avg Let_def)

lemma select_cpu_temps_ok: "\<exists>r. select_cpu_temps rd sensors = Inr r"
  by (simp add: select_cpu_temps_def cpu_hotspot_of_eq cpu_core_avg_of_eq bind_r_def Let_def)

lemma select_cpu_total_load_ok: "\<exists>r. select_cpu_total_load rd sensors = Inr r"
  by (simp add: select_cpu_total_load_def if_nonempty_avg Let_def split: option.splits)

lemma select_cpu_core_clocks_ok: "\<exists>r. select_cpu_core_clocks rd sensors = Inr r"
  by (simp add: select_cpu_core_clocks_def py_max_nonempty py_avg_def bind_r_def Let_def)

lemma select_gpu_metrics_ok: "\<exists>r. select_gpu_metrics rd sensors = Inr r"
  by (simp add: select_gpu_metrics_def if_nonempty_max bind_r_def Let_def)

lemma select_all_ok: "\<exists>r. select_all rd sensors = Inr r"
proof -
  obtain a where a: "select_cpu_temps rd sensors = Inr a" using select_cpu_temps_ok by blast
  obtain b where b: "select_cpu_total_load rd sensors = Inr b" using select_cpu_total_load_ok by blast
  obtain c where c: "select_cpu_core_clocks rd sensors = Inr c" using select_cpu_core_clocks_ok by blast
  obtain g where g: "select_gpu_metrics rd sensors = Inr g" using select_gpu_metrics_ok by blast
  show ?thesis
    unfolding select_all_def a b c g
    by (simp add: bind_r_def if_nonempty_max split: prod.splits)
qed

lemma read_metrics_from_ok: "\<exists>s. read_metrics_from rd sensors now = Inr s"
  using select_all_ok[of rd sensors] by (auto simp: read_metrics_from_def bind_r_def)

subsection \<open>Order normalisation and the configuration file\<close>

lemma set_first_occurrences: "set (first_occurrences xs) = set xs"
  by (induction xs) auto

lemma distinct_first_occurrences: "distinct (first_occurrences xs)"
  by (induction xs) (auto simp: set_first_occurrences)

lemma first_occurrences_distinct: "distinct xs \<Longrightarrow> first_occurrences xs = xs"
  by (induction xs) (auto simp: set_first_occurrences filter_id_conv)

lemma fold_normalize_step:
  "fold normalize_step xs (set n0, n0) =
     (set n0 \<union> set (recognized_first xs),
      n0 @ filter (\<lambda>k. k \<notin> set n0) (recognized_first xs))"
proof (induction xs arbitrary: n0)
  case Nil
  then show ?case by (simp add: recognized_first_def)
next
  case (Cons k ks)
  let ?c = "get_or_key ALIAS_TO_CANON k"
  show ?case
  proof (cases "?c \<in> set SENSOR_KEYS_DEFAULT \<and> ?c \<notin> set n0")
    case True
    then have step: "normalize_step k (set n0, n0) = (set (n0 @ [?c]), n0 @ [?c])"
      by (simp add: normalize_step_def Let_def)
    have rf: "recognized_first (k # ks) = ?c # filter (\<lambda>y. y \<noteq> ?c) (recognized_first ks)"
      using True by (simp add: recognized_first_def)
    show ?thesis
      unfolding fold_simps step Cons.IH rf using True
      by (auto simp: conj_commute intro!: filter_cong)
  next
    case False
    then have step: "normalize_step k (set n0, n0) = (set n0, n0)"
      by (auto simp: normalize_step_def Let_def)
    show ?thesis
    proof (cases "?c \<in> set SENSOR_KEYS_DEFAULT")
      case True
      with False have c: "?c \<in> set n0" by simp
      have rf: "recognized_first (k # ks) = ?c # filter (\<lambda>y. y \<noteq> ?c) (recognized_first ks)"
        using True by (simp add: recognized_first_def)
      have "filter (\<lambda>k. k \<notin> set n0) (filter (\<lambda>y. y \<noteq> ?c) (recognized_first ks)) =
            filter (\<lambda>k. k \<notin> set n0) (recognized_first ks)"
        using c by (auto intro!: filter_cong)
      then show ?thesis
        unfolding fold_simps step Cons.IH rf using c by auto
    next
      case False
      then have rf: "recognized_first (k # ks) = recognized_first ks"
        by (simp add: recognized_first_def)
      show ?thesis unfolding fold_simps step Cons.IH rf by simp
    qed
  qed
qed

lemma fold_append_missing:
  "fold (\<lambda>key normalized. if key \<notin> seen then normalized @ [key] else normalized) ks n =
     n @ filter (\<lambda>k. k \<notin> seen) ks"
  by (induction ks arbitrary: n) simp_all

lemma normalize_order_eq:
  "normalize_order order_in =
     recognized_first order_in @
     filter (\<lambda>k. k \<notin> set (recognized_first order_in)) SENSOR_KEYS_DEFAULT"
  using fold_normalize_step[of order_in "[]"]
  by (simp add: normalize_order_def fold_append_missing)

lemma distinct_SENSOR_KEYS_DEFAULT: "distinct SENSOR_KEYS_DEFAULT"
  by (simp add: SENSOR_KEYS_DEFAULT_def)

lemma set_recognized_first: "set (recognized_first xs) \<subseteq> set SENSOR_KEYS_DEFAULT"
  by (auto simp: recognized_first_def set_first_occurrences)

lemma distinct_normalize_order: "distinct (normalize_order xs)"
  using distinct_SENSOR_KEYS_DEFAULT
  by (auto simp: normalize_order_eq recognized_first_def distinct_first_occurrences)

lemma set_normalize_order: "set (normalize_order xs) = set SENSOR_KEYS_DEFAULT"
  using set_recognized_first[of xs] by (auto simp: normalize_order_eq)

lemma split_on_no_sep: "sep \<notin> set k \<Longrightarrow> split_on sep k = [k]"
  by (induction k) auto

lemma split_on_append_sep:
  "sep \<notin> set k \<Longrightarrow> split_on sep (k @ sep # rest) = k # split_on sep rest"
  by (induction k) auto

lemma split_on_join:
  "ks \<noteq> [] \<Longrightarrow> \<forall>k \<in> set ks. sep \<notin> set k \<Longrightarrow> split_on sep (join [sep] ks) = ks"
proof (induction "[sep]" ks rule: join.induct)
  case 1
  then show ?case by simp
next
  case (2 x)
  then show ?case by (simp add: split_on_no_sep)
next
  case (3 x y ys)
  then show ?case by (simp add: split_on_append_sep)
qed

lemma default_keys_plain:
  "\<forall>k \<in> set SENSOR_KEYS_DEFAULT.
     CHR '','' \<notin> set k \<and> strip k = k \<and> k \<noteq> [] \<and> get_or_key ALIAS_TO_CANON k = k"
  by (simp add: SENSOR_KEYS_DEFAULT_def strip_def is_space_def get_or_key_def ALIAS_TO_CANON_def)

lemma parse_order_join:
  assumes "ks \<noteq> []" and "set ks \<subseteq> set SENSOR_KEYS_DEFAULT"
  shows "parse_order (join '','' ks) = ks"
proof -
  have plain: "\<forall>k \<in> set ks. CHR '','' \<notin> set k \<and> strip k = k \<and> k \<noteq> []"
    using assms(2) default_keys_plain by blast
  then have "split_on CHR '','' (join '','' ks) = ks"
    using assms(1) by (simp add: split_on_join)
  moreover have "filter (\<lambda>s. strip s \<noteq> []) ks = ks"
    using plain by (simp add: filter_id_conv)
  moreover have "map strip ks = ks"
    using plain by (simp add: map_idI)
  ultimately show ?thesis by (simp add: parse_order_def)
qed

lemma recognized_first_canonical:
  assumes "distinct ks" and "set ks \<subseteq> set SENSOR_KEYS_DEFAULT"
  shows "recognized_first ks = ks"
proof -
  have "map (get_or_key ALIAS_TO_CANON) ks = ks"
    using assms(2) default_keys_plain by (simp add: map_idI subset_iff)
  moreover have "filter (\<lambda>k. k \<in> set SENSOR_KEYS_DEFAULT) ks = ks"
    using assms(2) by (simp add: filter_id_conv subset_iff)
  ultimately show ?thesis
    using assms(1) by (simp add: recognized_first_def first_occurrences_distinct)
qed

lemma normalize_order_idem: "normalize_order (normalize_order xs) = normalize_order xs"
proof -
  let ?n = "normalize_order xs"
  have r: "recognized_first ?n = ?n"
    by (rule recognized_first_canonical) (simp_all add: distinct_normalize_order set_normalize_order)
  have "filter (\<lambda>k. k \<notin> set ?n) SENSOR_KEYS_DEFAULT = []"
    by (simp add: set_normalize_order)
  then show ?thesis
    using normalize_order_eq[of ?n] by (simp add: r)
qed

lemma normalize_order_nonempty: "normalize_order xs \<noteq> []"
proof
  assume "normalize_order xs = []"
  then have "set (normalize_order xs) = {}" by simp
  then show False by (simp add: set_normalize_order SENSOR_KEYS_DEFAULT_def)
qed

lemma save_then_load_order:
  assumes "writable d"
  shows "\<exists>d'. save_ui_config (Some ord) iv d = Inr d' \<and>
              cfg_order (load_ui_config (config_ini d')) = normalize_order ord"
proof -
  have ext: "map (get_or_key CANON_TO_EXTERNAL) (normalize_order ord) = normalize_order ord"
    by (simp add: get_or_key_def CANON_TO_EXTERNAL_def map_idI)
  have p: "parse_order (join '','' (normalize_order ord)) = normalize_order ord"
    by (rule parse_order_join) (simp_all add: normalize_order_nonempty set_normalize_order)
  show ?thesis
    using assms
    by (cases iv) (simp_all add: save_ui_config_def load_ui_config_def ext p normalize_order_idem Let_def)
qed

subsection \<open>The interval and the write request\<close>

lemma round_half_even_ge: "of_int n \<le> y \<Longrightarrow> n \<le> round_half_even y"
proof -
  assume "of_int n \<le> y"
  then have "n \<le> \<lfloor>y\<rfloor>" by (simp add: le_floor_iff)
  then show ?thesis by (simp add: round_half_even_def Let_def)
qed

lemma round_half_even_of_int: "round_half_even (of_int n) = n"
  by (simp add: round_half_even_def)

lemma py_round_3_ge: "5 / 100 \<le> x \<Longrightarrow> 5 / 100 \<le> py_round x 3"
proof -
  assume "5 / 100 \<le> x"
  then have "of_int 50 \<le> x * 10 ^ 3" by simp
  then have "50 \<le> round_half_even (x * 10 ^ 3)" by (rule round_half_even_ge)
  then have "(50::real) \<le> of_int (round_half_even (x * 10 ^ 3))" by linarith
  then show ?thesis by (simp add: py_round_def field_simps)
qed

lemma py_round_idem: "py_round (py_round x d) d = py_round x d"
proof -
  have "py_round x d * 10 ^ d = of_int (round_half_even (x * 10 ^ d))"
    by (simp add: py_round_def)
  then show ?thesis
    by (simp add: py_round_def[of "py_round x d"] round_half_even_of_int) (simp add: py_round_def)
qed

lemma clamp_round_3:
  "max (5 / 100) (py_round (max (5 / 100) v) 3) = py_round (max (5 / 100) v) 3"
  by (rule max_absorb2, rule py_round_3_ge) simp

lemma persisted_after_save:
  "writable d \<Longrightarrow>
   \<exists>d'. save_ui_config ord (Some v) d = Inr d' \<and> writable d' \<and>
        persisted_interval d' = py_round (max (5 / 100) v) 3"
  using clamp_round_3[of v]
  by (cases ord)
     (simp_all add: save_ui_config_def persisted_interval_def load_ui_config_def format_3f_def
        Let_def)

lemma load_interval_ge: "5 / 100 \<le> cfg_update_interval_sec (load_ui_config f)"
  by (auto simp: load_ui_config_def default_ui_config_def max_def
      split: config_file.splits option.splits interval_text.splits)

lemma apply_payload_interval:
  "cfg_update_interval_sec (apply_payload \<lparr>pl_order = ord, pl_update_interval_sec = iv\<rparr> c) =
     (case iv of IntervalNumber v \<Rightarrow> max (5 / 100) v | _ \<Rightarrow> cfg_update_interval_sec c)"
  by (simp add: apply_payload_def split: interval_field.splits order_field.splits)

lemma apply_payload_order:
  "cfg_order (apply_payload \<lparr>pl_order = ord, pl_update_interval_sec = iv\<rparr> c) =
     (case ord of OrderList xs \<Rightarrow> normalize_order xs | _ \<Rightarrow> cfg_order c)"
  by (simp add: apply_payload_def split: interval_field.splits order_field.splits)

lemma config_view_write:
  assumes "writable (files st)"
  shows "\<exists>st'. config_view (post ord iv) st = Inr (OkTrue, st') \<and>
           UI_CONFIG st' = apply_payload \<lparr>pl_order = ord, pl_update_interval_sec = iv\<rparr> (UI_CONFIG st) \<and>
           persisted_interval (files st') =
             py_round (max (5 / 100) (cfg_update_interval_sec (UI_CONFIG st'))) 3 \<and>
           cfg_order (load_ui_config (config_ini (files st'))) = normalize_order (cfg_order (UI_CONFIG st')) \<and>
           writable (files st')"
proof -
  let ?c = "apply_payload \<lparr>pl_order = ord, pl_update_interval_sec = iv\<rparr> (UI_CONFIG st)"
  obtain d' where d': "save_ui_config (Some (cfg_order ?c)) (Some (cfg_update_interval_sec ?c)) (files st) = Inr d'"
      "writable d'" "persisted_interval d' = py_round (max (5 / 100) (cfg_update_interval_sec ?c)) 3"
    using persisted_after_save[OF assms] by blast
  obtain d'' where d'': "save_ui_config (Some (cfg_order ?c)) (Some (cfg_update_interval_sec ?c)) (files st) = Inr d''"
      "cfg_order (load_ui_config (config_ini d'')) = normalize_order (cfg_order ?c)"
    using save_then_load_order[OF assms] by blast
  have same: "d'' = d'" using d'(1) d''(1) by simp
  have cv: "config_view (post ord iv) st = Inr (OkTrue, st\<lparr>UI_CONFIG := ?c, files := d'\<rparr>)"
    by (simp add: config_view_def post_def d'(1))
  show ?thesis
    unfolding cv using d'(2,3) d''(2) same by simp
qed




lemma in_sync_start_after_save:
  assumes "writable d"
  shows "\<exists>d'. save_ui_config ord (Some v) d = Inr d' \<and>
              in_sync \<lparr>UI_CONFIG = load_ui_config (config_ini d'), files = d'\<rparr>"
proof -
  obtain d' where d': "save_ui_config ord (Some v) d = Inr d'"
      "persisted_interval d' = py_round (max (5 / 100) v) 3"
    using persisted_after_save[OF assms] by blast
  have "max (5 / 100) (py_round (max (5 / 100) v) 3) = py_round (max (5 / 100) v) 3"
    by (rule clamp_round_3)
  then have "in_sync \<lparr>UI_CONFIG = load_ui_config (config_ini d'), files = d'\<rparr>"
    using d'(2) by (simp add: in_sync_def persisted_interval_def py_round_idem)
  then show ?thesis using d'(1) by blast
qed

lemma fresh_server_facts:
  "writable (files fresh_server)" "in_sync fresh_server"
  "cfg_update_interval_sec (UI_CONFIG fresh_server) = 1"
  "persisted_interval (files fresh_server) = 1"
  by (simp_all add: fresh_server_def in_sync_def persisted_interval_def load_ui_config_def
      default_ui_config_def py_round_def round_half_even_def)

subsection \<open>The values selected by \<open>read_metrics\<close>\<close>

lemma select_all_fields:
  assumes "select_all rd sensors = Inr r"
  shows "select_cpu_temps rd sensors = Inr (raw_cpu_core_temp r, raw_cpu_hotspot_temp r)"
    and "select_cpu_total_load rd sensors = Inr (raw_cpu_load r)"
    and "select_cpu_core_clocks rd sensors = Inr (raw_cpu_clock_max_mhz r, raw_cpu_clock_avg_mhz r)"
    and "select_ram_used_free_gb rd sensors = (raw_ram_used_gb r, raw_ram_free_gb r, raw_ram_usage r)"
    and "select_gpu_metrics rd sensors =
           Inr (raw_gpu_core_temp r, raw_gpu_hotspot_temp r, raw_gpu_load r, raw_gpu_power r,
                raw_gpu_core_clock r, raw_gpu_mem_clock r)"
    and "raw_net_load r = max_opt (fold (net_step rd) sensors [])"
    and "raw_cpu_power r = max_opt (fold (cpu_power_step rd) sensors [])"
proof -
  obtain a where a: "select_cpu_temps rd sensors = Inr a" using select_cpu_temps_ok by blast
  obtain b where b: "select_cpu_total_load rd sensors = Inr b" using select_cpu_total_load_ok by blast
  obtain c where c: "select_cpu_core_clocks rd sensors = Inr c" using select_cpu_core_clocks_ok by blast
  obtain g where g: "select_gpu_metrics rd sensors = Inr g" using select_gpu_metrics_ok by blast
  have r: "r = (case a of (cpu_core_temp, cpu_hotspot_temp) \<Rightarrow>
               case c of (cpu_clock_max_mhz, cpu_clock_avg_mhz) \<Rightarrow>
               case select_ram_used_free_gb rd sensors of (ram_used, ram_free, ram_usage) \<Rightarrow>
               case g of (gpu_core_temp, gpu_hotspot_temp, gpu_load, gpu_power, gpu_core_clock, gpu_mem_clock) \<Rightarrow>
     \<lparr> raw_cpu_core_temp = cpu_core_temp, raw_cpu_hotspot_temp = cpu_hotspot_temp,
           raw_cpu_load = b, raw_cpu_clock_max_mhz = cpu_clock_max_mhz,
           raw_cpu_clock_avg_mhz = cpu_clock_avg_mhz, raw_ram_used_gb = ram_used,
           raw_ram_free_gb = ram_free, raw_ram_usage = ram_usage,
           raw_gpu_core_temp = gpu_core_temp, raw_gpu_hotspot_temp = gpu_hotspot_temp,
           raw_gpu_load = gpu_load, raw_gpu_power = gpu_power,
           raw_gpu_core_clock = gpu_core_clock, raw_gpu_mem_clock = gpu_mem_clock,
           raw_net_load = max_opt (fold (net_step rd) sensors []),
           raw_cpu_power = max_opt (fold (cpu_power_step rd) sensors []) \<rparr>)"
    using assms unfolding select_all_def a b c g
    by (simp add: bind_r_def if_nonempty_max split: prod.splits)
  show "select_cpu_temps rd sensors = Inr (raw_cpu_core_temp r, raw_cpu_hotspot_temp r)"
    unfolding a r by (simp split: prod.splits)
  show "select_cpu_total_load rd sensors = Inr (raw_cpu_load r)"
    unfolding b r by (simp split: prod.splits)
  show "select_cpu_core_clocks rd sensors = Inr (raw_cpu_clock_max_mhz r, raw_cpu_clock_avg_mhz r)"
    unfolding c r by (simp split: prod.splits)
  show "select_ram_used_free_gb rd sensors = (raw_ram_used_gb r, raw_ram_free_gb r, raw_ram_usage r)"
    unfolding r by (simp split: prod.splits)
  show "select_gpu_metrics rd sensors =
           Inr (raw_gpu_core_temp r, raw_gpu_hotspot_temp r, raw_gpu_load r, raw_gpu_power r,
                raw_gpu_core_clock r, raw_gpu_mem_clock r)"
    unfolding g r by (simp split: prod.splits)
  show "raw_net_load r = max_opt (fold (net_step rd) sensors [])"
    unfolding r by (simp split: prod.splits)
  show "raw_cpu_power r = max_opt (fold (cpu_power_step rd) sensors [])"
    unfolding r by (simp split: prod.splits)
qed

lemma read_metrics_from_eq:
  "select_all rd sensors = Inr r \<Longrightarrow> read_metrics_from rd sensors now = Inr (build_snapshot r now)"
  by (simp add: read_metrics_from_def bind_r_def)

lemma net_pool_test:
  "in_net_pool (hw, sensor, parent) \<longleftrightarrow>
     HardwareType parent = Network \<and> SensorType sensor = Load \<and>
     0 \<le> float_value (Value sensor) \<and> float_value (Value sensor) \<le> 100"
  by (simp add: in_net_pool_def)

lemma net_fold:
  "fold (net_step init_reader) sensors acc = acc @ pool in_net_pool sensors"
proof (induction sensors arbitrary: acc)
  case Nil
  then show ?case by (simp add: pool_Nil)
next
  case (Cons e es)
  obtain hw sensor parent where e: "e = (hw, sensor, parent)" by (cases e) auto
  show ?case
    unfolding e fold_simps Cons.IH
    by (simp add: pool_Cons net_step_def init_reader_fields parent_is_def is_kind_def net_pool_test Let_def)
qed

subsection \<open>The GPU temperature pools\<close>

lemma gpu_pool_tests:
  "in_gpu_hotspot_pool (hw, sensor, parent) \<longleftrightarrow>
     HardwareType parent \<in> {GpuNvidia, GpuAti, GpuAmd, GpuAmdRadeon, GpuIntel} \<and>
     SensorType sensor = Temperature \<and> hotspot_name (lname sensor)"
  "in_gpu_core_pool (hw, sensor, parent) \<longleftrightarrow>
     HardwareType parent \<in> {GpuNvidia, GpuAti, GpuAmd, GpuAmdRadeon, GpuIntel} \<and>
     SensorType sensor = Temperature \<and> \<not> hotspot_name (lname sensor)"
  by (simp_all add: in_gpu_hotspot_pool_def in_gpu_core_pool_def gpu_temp_sensor_def)

lemma any_in_hotspot: "any_in [''hot spot'', ''hotspot'', ''junction''] name \<longleftrightarrow> hotspot_name name"
  by (simp add: any_in_def hotspot_name_def)

lemma gpu_step_temps:
  "temps (gpu_step init_reader (hw, sensor, parent) p) =
     temps p @ pool in_gpu_core_pool [(hw, sensor, parent)]"
  "hotspot_temps (gpu_step init_reader (hw, sensor, parent) p) =
     hotspot_temps p @ pool in_gpu_hotspot_pool [(hw, sensor, parent)]"
  by (simp_all add: gpu_step_def gpu_temp_step_def gpu_load_step_def gpu_power_step_def
      gpu_clock_step_def gpu_types_iff init_reader_fields is_kind_def is_kind_str_def
      any_in_hotspot append_finite_def pool_Cons pool_Nil gpu_pool_tests Let_def)

lemma pool_Cons_append: "pool P (e # es) = pool P [e] @ pool P es"
  by (simp add: pool_def)

lemma gpu_fold_temps:
  "temps (fold (gpu_step init_reader) sensors p) = temps p @ pool in_gpu_core_pool sensors \<and>
   hotspot_temps (fold (gpu_step init_reader) sensors p) =
     hotspot_temps p @ pool in_gpu_hotspot_pool sensors"
proof (induction sensors arbitrary: p)
  case Nil
  then show ?case by (simp add: pool_Nil)
next
  case (Cons e es)
  obtain hw sensor parent where e: "e = (hw, sensor, parent)" by (cases e) auto
  show ?case
    unfolding e fold_simps Cons.IH[THEN conjunct1] Cons.IH[THEN conjunct2] gpu_step_temps
    by (simp add: pool_Cons_append[of _ "(hw, sensor, parent)" es])
qed

lemma select_gpu_metrics_temps:
  "\<exists>l pw cc mc. select_gpu_metrics init_reader sensors =
     Inr (max_opt (pool in_gpu_core_pool sensors), max_opt (pool in_gpu_hotspot_pool sensors),
          l, pw, cc, mc)"
  by (simp add: select_gpu_metrics_def gpu_pools_of_def if_nonempty_max bind_r_def Let_def
      gpu_fold_temps)

subsection \<open>The empty sensor list and two examples\<close>





lemma cpu_power_fold_ex:
  "fold (cpu_power_step init_reader)
     (collect_sensors [device Cpu [reading Power ''CPU Package'' (Some (Finite 42.349)),
                                   reading Clock ''CPU Core #1'' (Some (Finite 3799.6))]]) [] = [42.349]"
  by (simp add: cpu_power_step_def collect_sensors_def device_def reading_def parent_is_def
      is_kind_str_def init_reader_fields append_finite_def eval_names)

subsection \<open>The reader object\<close>

lemma enums_update_all: "enums (update_all upd self) = enums self"
  by (simp add: update_all_def)

lemma read_metrics_self_eq:
  "read_metrics_self upd self now =
     bind_r (read_metrics_from (enums self) (collect_sensors (computer (update_all upd self))) now)
       (\<lambda>s. Inr (s, update_all upd self))"
proof -
  let ?sensors = "collect_sensors (computer (update_all upd self))"
  obtain a where a: "select_cpu_temps (enums self) ?sensors = Inr a" using select_cpu_temps_ok by blast
  obtain b where b: "select_cpu_total_load (enums self) ?sensors = Inr b" using select_cpu_total_load_ok by blast
  obtain c where c: "select_cpu_core_clocks (enums self) ?sensors = Inr c" using select_cpu_core_clocks_ok by blast
  obtain g where g: "select_gpu_metrics (enums self) ?sensors = Inr g" using select_gpu_metrics_ok by blast
  show ?thesis
    unfolding read_metrics_self_def read_metrics_from_def select_all_def collect_sensors_self_def
      select_cpu_temps_self_def select_cpu_total_load_self_def select_cpu_core_clocks_self_def
      select_ram_used_free_gb_self_def select_gpu_metrics_self_def Let_def
    by (simp add: enums_update_all a b c g bind_r_def if_nonempty_max split: prod.splits)
qed

lemma read_metrics_self_ok:
  "\<exists>s. read_metrics_self upd self now = Inr (s, update_all upd self) \<and>
       read_metrics_from (enums self) (collect_sensors (computer (update_all upd self))) now = Inr s"
  using read_metrics_from_ok[of "enums self" "collect_sensors (computer (update_all upd self))" now]
  by (auto simp: read_metrics_self_eq bind_r_def)

lemma reachable_enums: "reachable self \<Longrightarrow> enums self = init_reader"
proof (induction rule: reachable.induct)
  case (start c)
  then show ?case by (simp add: new_monitor_def)
next
  case (cycle self upd now s self1)
  obtain s' where "read_metrics_self upd self now = Inr (s', update_all upd self)"
    using read_metrics_self_ok by blast
  with cycle.hyps(2) have "self1 = update_all upd self" by simp
  then show ?case using cycle.IH by (simp add: enums_update_all)
qed


section \<open>RAM usage\<close>

text \<open>
  C1. With the memory sensors "Memory Used" 8 and "Memory Available" 8, both of kind Data,
  and no Load sensor, the snapshot of \<open>read_metrics\<close> has no \<open>usage_percent\<close> for the RAM:
  \<open>read_metrics\<close> takes the usage from \<open>_select_ram_used_free_gb\<close>, which only records a load
  sensor. \<open>_select_ram_usage\<close>, which \<open>read_metrics\<close> does not call, derives 50 from the same
  sensors.
\<close>

theorem C1_ram_usage_not_derived:
  "field_of ram
     (read_metrics init_reader
        [device Memory [reading Data ''Memory Used'' (Some (Finite 8)),
                        reading Data ''Memory Available'' (Some (Finite 8))]] now) =
     Some \<lparr>ram_usage_percent = None, ram_used_gb = Some 8, ram_free_gb = Some 8\<rparr>
   \<and> select_ram_usage init_reader
       (collect_sensors
          [device Memory [reading Data ''Memory Used'' (Some (Finite 8)),
                          reading Data ''Memory Available'' (Some (Finite 8))]]) =
     Some 50"
proof (intro conjI)
  let ?sensors = "collect_sensors
          [device Memory [reading Data ''Memory Used'' (Some (Finite 8)),
                          reading Data ''Memory Available'' (Some (Finite 8))]]"
  obtain r where r: "select_all init_reader ?sensors = Inr r" using select_all_ok by blast
  have "select_ram_used_free_gb init_reader ?sensors = (Some 8, Some 8, None)"
    by (simp add: select_ram_used_free_gb_def ram_step_def collect_sensors_def device_def
        reading_def is_ram_hw_iff is_kind_def is_kind_str_def init_reader_fields eval_names Let_def)
  then have "raw_ram_used_gb r = Some 8" "raw_ram_free_gb r = Some 8" "raw_ram_usage r = None"
    using select_all_fields(4)[OF r] by simp_all
  then show "field_of ram (read_metrics init_reader
        [device Memory [reading Data ''Memory Used'' (Some (Finite 8)),
                        reading Data ''Memory Available'' (Some (Finite 8))]] now) =
     Some \<lparr>ram_usage_percent = None, ram_used_gb = Some 8, ram_free_gb = Some 8\<rparr>"
    unfolding read_metrics_def read_metrics_from_eq[OF r]
    by (simp add: field_of_def build_snapshot_def py_round_def round_half_even_def)
next
  show "select_ram_usage init_reader
       (collect_sensors
          [device Memory [reading Data ''Memory Used'' (Some (Finite 8)),
                          reading Data ''Memory Available'' (Some (Finite 8))]]) =
     Some 50"
    by (simp add: select_ram_usage_def ram_usage_step_def is_ram_load_def collect_sensors_def
        device_def reading_def is_ram_hw_iff is_kind_def is_kind_str_def init_reader_fields
        eval_names Let_def)
qed

section \<open>The finite-value filter\<close>



section \<open>Rounding\<close>

text \<open>
  C5. The snapshot is built from the selected values by rounding each of them: the
  temperatures, percentages, powers and the two RAM sizes to one decimal, the clocks to no
  decimal; an absent value stays absent. A rounded value is a multiple of the unit of its
  precision and at most half a unit away from the raw value. A CPU power of 42.349 becomes
  42.3 and a clock of 3799.6 becomes 3800, also in the snapshot read from a CPU with these
  two sensors, whose temperatures stay absent.
\<close>

theorem C5_rounding:
  "(\<exists>r. select_all rd sensors = Inr r \<and>
        read_metrics_from rd sensors now = Inr (build_snapshot r now))
   \<and> rounded_to 1 (raw_cpu_core_temp r) (cpu_core_temperature_c (cpu (build_snapshot r now)))
   \<and> rounded_to 1 (raw_cpu_hotspot_temp r) (cpu_hotspot_temperature_c (cpu (build_snapshot r now)))
   \<and> rounded_to 1 (raw_cpu_load r) (cpu_usage_percent (cpu (build_snapshot r now)))
   \<and> rounded_to 0 (raw_cpu_clock_max_mhz r) (cpu_max_clock_mhz (cpu (build_snapshot r now)))
   \<and> rounded_to 0 (raw_cpu_clock_avg_mhz r) (cpu_avg_clock_mhz (cpu (build_snapshot r now)))
   \<and> rounded_to 1 (raw_cpu_power r) (cpu_power_w (cpu (build_snapshot r now)))
   \<and> rounded_to 1 (raw_ram_usage r) (ram_usage_percent (ram (build_snapshot r now)))
   \<and> rounded_to 1 (raw_ram_used_gb r) (ram_used_gb (ram (build_snapshot r now)))
   \<and> rounded_to 1 (raw_ram_free_gb r) (ram_free_gb (ram (build_snapshot r now)))
   \<and> rounded_to 1 (raw_gpu_core_temp r) (gpu_core_temperature_c (gpu (build_snapshot r now)))
   \<and> rounded_to 1 (raw_gpu_hotspot_temp r) (gpu_hotspot_temperature_c (gpu (build_snapshot r now)))
   \<and> rounded_to 1 (raw_gpu_load r) (gpu_usage_percent (gpu (build_snapshot r now)))
   \<and> rounded_to 0 (raw_gpu_core_clock r) (gpu_core_clock_mhz (gpu (build_snapshot r now)))
   \<and> rounded_to 0 (raw_gpu_mem_clock r) (gpu_memory_clock_mhz (gpu (build_snapshot r now)))
   \<and> rounded_to 1 (raw_gpu_power r) (gpu_power_w (gpu (build_snapshot r now)))
   \<and> rounded_to 1 (raw_net_load r) (net_usage_percent (net (build_snapshot r now)))
   \<and> round_or_none None digits = None
   \<and> round_or_none (Some 42.349) 1 = Some 42.3
   \<and> round_or_none (Some 3799.6) 0 = Some 3800
   \<and> field_of (\<lambda>s. (cpu_power_w (cpu s), cpu_max_clock_mhz (cpu s), cpu_core_temperature_c (cpu s)))
       (read_metrics init_reader
          [device Cpu [reading Power ''CPU Package'' (Some (Finite 42.349)),
                       reading Clock ''CPU Core #1'' (Some (Finite 3799.6))]] now) =
     Some (Some 42.3, Some 3800, None)"
proof -
  have a: "\<exists>r. select_all rd sensors = Inr r \<and>
        read_metrics_from rd sensors now = Inr (build_snapshot r now)"
    using select_all_ok[of rd sensors] read_metrics_from_eq by blast
  have b: "round_or_none (Some 42.349) 1 = Some 42.3" "round_or_none (Some 3799.6) 0 = Some 3800"
    by (simp_all add: py_round_def round_half_even_def)
  let ?sensors = "collect_sensors [device Cpu [reading Power ''CPU Package'' (Some (Finite 42.349)),
                       reading Clock ''CPU Core #1'' (Some (Finite 3799.6))]]"
  obtain r' where r': "select_all init_reader ?sensors = Inr r'" using select_all_ok by blast
  have p: "raw_cpu_power r' = Some 42.349"
    unfolding select_all_fields(7)[OF r'] cpu_power_fold_ex by (simp add: max_opt_def)
  have "select_cpu_core_clocks init_reader ?sensors = Inr (Some 3799.6, Some 3799.6)"
    by (simp add: select_cpu_core_clocks_def is_cpu_clock_def collect_sensors_def device_def
        reading_def parent_is_def is_kind_def init_reader_fields append_finite_def eval_names
        py_max_def py_avg_def bind_r_def Let_def)
  then have c: "raw_cpu_clock_max_mhz r' = Some 3799.6"
    using select_all_fields(3)[OF r'] by simp
  have "select_cpu_temps init_reader ?sensors = Inr (None, None)"
    by (simp add: select_cpu_temps_init collect_sensors_def device_def reading_def pool_Cons
        pool_Nil cpu_pool_tests avg_opt_def max_opt_def)
  then have t: "raw_cpu_core_temp r' = None"
    using select_all_fields(1)[OF r'] by simp
  have e: "field_of (\<lambda>s. (cpu_power_w (cpu s), cpu_max_clock_mhz (cpu s), cpu_core_temperature_c (cpu s)))
       (read_metrics init_reader
          [device Cpu [reading Power ''CPU Package'' (Some (Finite 42.349)),
                       reading Clock ''CPU Core #1'' (Some (Finite 3799.6))]] now) =
     Some (Some 42.3, Some 3800, None)"
    unfolding read_metrics_def read_metrics_from_eq[OF r']
    by (simp add: field_of_def build_snapshot_def p c t py_round_def round_half_even_def)
  show ?thesis
    by (intro conjI a b e) (simp_all add: build_snapshot_def round_or_none_rounded)
qed

section \<open>Poll cycles\<close>

text \<open>
  C8. Over the life of a reader object a poll cycle yields metrics that depend on the sensor
  list the provider shows after the refresh of that cycle, and on nothing else: two
  cycles, run on objects with any earlier cycles behind them and at any times, yield the
  same metrics when their refreshed sensor lists are equal. A cycle does not raise, puts
  its time in the timestamp, and leaves the object with the cached members it had and with
  the refreshed device tree; no reading is kept in it.
\<close>

theorem C8_poll_cycles_stateless:
  "reachable a \<Longrightarrow> reachable b \<Longrightarrow>
   collect_sensors (computer (update_all upd_a a)) =
     collect_sensors (computer (update_all upd_b b)) \<Longrightarrow>
   cycle_metrics (read_metrics_self upd_a a ta) = cycle_metrics (read_metrics_self upd_b b tb)
   \<and> cycle_metrics (read_metrics_self upd_a a ta) \<noteq> None
   \<and> cycle_timestamp (read_metrics_self upd_a a ta) = Some ta
   \<and> cycle_object (read_metrics_self upd_a a ta) = Some (update_all upd_a a)
   \<and> enums (update_all upd_a a) = enums a
   \<and> reachable (update_all upd_a a)"
proof -
  assume ra: "reachable a" and rb: "reachable b"
    and same: "collect_sensors (computer (update_all upd_a a)) =
               collect_sensors (computer (update_all upd_b b))"
  let ?S = "collect_sensors (computer (update_all upd_a a))"
  have ea: "enums a = init_reader" and eb: "enums b = init_reader"
    using ra rb by (simp_all add: reachable_enums)
  obtain sa where sa: "read_metrics_self upd_a a ta = Inr (sa, update_all upd_a a)"
      "read_metrics_from init_reader ?S ta = Inr sa"
    using read_metrics_self_ok[of upd_a a ta] by (auto simp: ea)
  obtain sb where sb: "read_metrics_self upd_b b tb = Inr (sb, update_all upd_b b)"
      "read_metrics_from init_reader ?S tb = Inr sb"
    using read_metrics_self_ok[of upd_b b tb] by (auto simp: eb same)
  obtain r where r: "select_all init_reader ?S = Inr r" using select_all_ok by blast
  have "sa = build_snapshot r ta" "sb = build_snapshot r tb"
    using sa(2) sb(2) by (simp_all add: read_metrics_from_eq[OF r])
  then have m: "metrics_of sa = metrics_of sb" and t: "timestamp sa = ta"
    by (simp_all add: metrics_of_def build_snapshot_def)
  have "reachable (update_all upd_a a)"
    by (rule reachable.cycle[OF ra sa(1)])
  then show ?thesis
    unfolding sa(1) sb(1)
    by (simp add: cycle_metrics_def cycle_timestamp_def cycle_object_def m t enums_update_all)
qed

text \<open>
  A new reader whose provider shows a core at 70, and a reader that has completed a cycle
  at 90 and whose provider now shows 70.
\<close>

theorem C8_poll_cycles_stateless_witness:
  "reachable (new_monitor [device Cpu [reading Temperature ''Core #1'' (Some (Finite 70))]])
   \<and> reachable
       (update_all Some (new_monitor [device Cpu [reading Temperature ''Core #1'' (Some (Finite 90))]]))
   \<and> collect_sensors
       (computer (update_all Some
          (new_monitor [device Cpu [reading Temperature ''Core #1'' (Some (Finite 70))]]))) =
     collect_sensors
       (computer (update_all
          (\<lambda>h. Some (device Cpu [reading Temperature ''Core #1'' (Some (Finite 70))]))
          (update_all Some
             (new_monitor [device Cpu [reading Temperature ''Core #1'' (Some (Finite 90))]]))))
   \<and> cycle_metrics
       (read_metrics_self Some
          (new_monitor [device Cpu [reading Temperature ''Core #1'' (Some (Finite 70))]]) 1) =
     cycle_metrics
       (read_metrics_self
          (\<lambda>h. Some (device Cpu [reading Temperature ''Core #1'' (Some (Finite 70))]))
          (update_all Some
             (new_monitor [device Cpu [reading Temperature ''Core #1'' (Some (Finite 90))]])) 2)
   \<and> cycle_metrics
       (read_metrics_self Some
          (new_monitor [device Cpu [reading Temperature ''Core #1'' (Some (Finite 70))]]) 1) \<noteq>
     None"
proof -
  let ?a = "new_monitor [device Cpu [reading Temperature ''Core #1'' (Some (Finite 70))]]"
  let ?c = "new_monitor [device Cpu [reading Temperature ''Core #1'' (Some (Finite 90))]]"
  let ?b = "update_all Some ?c"
  let ?upd = "\<lambda>h::hardware. Some (device Cpu [reading Temperature ''Core #1'' (Some (Finite 70))])"
  have ra: "reachable ?a" by (rule reachable.start)
  obtain s where "read_metrics_self Some ?c 0 = Inr (s, ?b)"
    using read_metrics_self_ok by blast
  then have rb: "reachable ?b" by (rule reachable.cycle[OF reachable.start])
  have same: "collect_sensors (computer (update_all Some ?a)) =
              collect_sensors (computer (update_all ?upd ?b))"
    by (simp add: update_all_def update_hardware_def new_monitor_def device_def collect_sensors_def)
  show ?thesis
    using C8_poll_cycles_stateless[OF ra rb same, of 1 2] ra rb same by blast
qed

section \<open>CPU temperatures\<close>

text \<open>
  C2. For every sensor list the CPU selector returns as core temperature the average of
  the first non-empty pool among CCD, Core, Package and Mainboard-CPU, and as hotspot the
  maximum of the first non-empty pool among Core, Package and Mainboard-CPU, each absent
  when all its pools are empty. The hotspot does not depend on the sensors of the CCD
  pool: removing them from the list leaves it unchanged. With CCD readings 60 and 64 and
  Core readings 70 and 85 the core temperature is 62 and the hotspot 85.
\<close>

theorem C2_cpu_temps:
  "select_cpu_temps init_reader sensors =
     Inr (avg_opt (first_nonempty [pool in_ccd_pool sensors, pool in_core_pool sensors,
                                   pool in_package_pool sensors, pool in_mb_cpu_pool sensors]),
          max_opt (first_nonempty [pool in_core_pool sensors, pool in_package_pool sensors,
                                   pool in_mb_cpu_pool sensors]))
   \<and> map_sum id snd (select_cpu_temps init_reader (filter (\<lambda>e. \<not> in_ccd_pool e) sensors)) =
     map_sum id snd (select_cpu_temps init_reader sensors)
   \<and> select_cpu_temps init_reader
       (collect_sensors
          [device Cpu [reading Temperature ''CCD1 (Tdie)'' (Some (Finite 60)),
                       reading Temperature ''CCD2 (Tdie)'' (Some (Finite 64)),
                       reading Temperature ''Core #1'' (Some (Finite 70)),
                       reading Temperature ''Core #2'' (Some (Finite 85))]]) =
     Inr (Some 62, Some 85)"
proof (intro conjI)
  show "select_cpu_temps init_reader sensors =
     Inr (avg_opt (first_nonempty [pool in_ccd_pool sensors, pool in_core_pool sensors,
                                   pool in_package_pool sensors, pool in_mb_cpu_pool sensors]),
          max_opt (first_nonempty [pool in_core_pool sensors, pool in_package_pool sensors,
                                   pool in_mb_cpu_pool sensors]))"
    by (rule select_cpu_temps_init)
next
  have core: "pool in_core_pool (filter (\<lambda>e. \<not> in_ccd_pool e) sensors) = pool in_core_pool sensors"
    unfolding pool_filter by (rule pool_cong) (auto simp: cpu_pool_tests)
  have pkg: "pool in_package_pool (filter (\<lambda>e. \<not> in_ccd_pool e) sensors) = pool in_package_pool sensors"
    unfolding pool_filter by (rule pool_cong) (auto simp: cpu_pool_tests)
  have mb: "pool in_mb_cpu_pool (filter (\<lambda>e. \<not> in_ccd_pool e) sensors) = pool in_mb_cpu_pool sensors"
    unfolding pool_filter by (rule pool_cong) (auto simp: cpu_pool_tests)
  show "map_sum id snd (select_cpu_temps init_reader (filter (\<lambda>e. \<not> in_ccd_pool e) sensors)) =
        map_sum id snd (select_cpu_temps init_reader sensors)"
    by (simp add: select_cpu_temps_init core pkg mb)
next
  show "select_cpu_temps init_reader
       (collect_sensors
          [device Cpu [reading Temperature ''CCD1 (Tdie)'' (Some (Finite 60)),
                       reading Temperature ''CCD2 (Tdie)'' (Some (Finite 64)),
                       reading Temperature ''Core #1'' (Some (Finite 70)),
                       reading Temperature ''Core #2'' (Some (Finite 85))]]) =
     Inr (Some 62, Some 85)"
    by (simp add: select_cpu_temps_init collect_sensors_def device_def reading_def pool_Cons pool_Nil
        cpu_pool_tests eval_names avg_opt_def max_opt_def)
qed

section \<open>GPU temperatures\<close>

text \<open>
  C9. For every sensor list the GPU selector returns as core temperature the maximum of the
  core-temperature pool and as hotspot the maximum of the hotspot pool, each absent when
  its pool is empty. A temperature sensor of a GPU device is in the hotspot pool when its
  lower-cased name contains "hot spot", "hotspot" or "junction", and in the core pool
  otherwise; no sensor is in both. The snapshot holds the two values rounded to one
  decimal. With the readings GPU Core 61, GPU Hot Spot 75, GPU Memory Junction 82 and
  GPU Memory 58 the core temperature is 61 and the hotspot 82.
\<close>

theorem C9_gpu_temperatures:
  "map_sum id (\<lambda>(core_temp, hotspot, rest). (core_temp, hotspot))
      (select_gpu_metrics init_reader sensors) =
     Inr (max_opt (pool in_gpu_core_pool sensors), max_opt (pool in_gpu_hotspot_pool sensors))
   \<and> (in_gpu_core_pool e \<or> in_gpu_hotspot_pool e) = gpu_temp_sensor e
   \<and> (in_gpu_core_pool e \<and> in_gpu_hotspot_pool e) = False
   \<and> in_gpu_hotspot_pool (hw, sensor, parent) =
       (gpu_temp_sensor (hw, sensor, parent) \<and>
        (contains ''hot spot'' (lower (or_empty (Name sensor))) \<or>
         contains ''hotspot'' (lower (or_empty (Name sensor))) \<or>
         contains ''junction'' (lower (or_empty (Name sensor)))))
   \<and> field_of (\<lambda>s. (gpu_core_temperature_c (gpu s), gpu_hotspot_temperature_c (gpu s)))
        (read_metrics_from init_reader sensors now) =
       Some (round_or_none (max_opt (pool in_gpu_core_pool sensors)) 1,
             round_or_none (max_opt (pool in_gpu_hotspot_pool sensors)) 1)
   \<and> map_sum id (\<lambda>(core_temp, hotspot, rest). (core_temp, hotspot))
       (select_gpu_metrics init_reader
          (collect_sensors
             [device GpuNvidia [reading Temperature ''GPU Core'' (Some (Finite 61)),
                                reading Temperature ''GPU Hot Spot'' (Some (Finite 75)),
                                reading Temperature ''GPU Memory Junction'' (Some (Finite 82)),
                                reading Temperature ''GPU Memory'' (Some (Finite 58))]])) =
     Inr (Some 61, Some 82)"
proof (intro conjI)
  obtain l pw cc mc where g: "select_gpu_metrics init_reader sensors =
     Inr (max_opt (pool in_gpu_core_pool sensors), max_opt (pool in_gpu_hotspot_pool sensors),
          l, pw, cc, mc)"
    using select_gpu_metrics_temps by blast
  show "map_sum id (\<lambda>(core_temp, hotspot, rest). (core_temp, hotspot))
      (select_gpu_metrics init_reader sensors) =
     Inr (max_opt (pool in_gpu_core_pool sensors), max_opt (pool in_gpu_hotspot_pool sensors))"
    unfolding g by simp
  obtain r where r: "select_all init_reader sensors = Inr r" using select_all_ok by blast
  have "raw_gpu_core_temp r = max_opt (pool in_gpu_core_pool sensors)"
       "raw_gpu_hotspot_temp r = max_opt (pool in_gpu_hotspot_pool sensors)"
    using select_all_fields(5)[OF r] g by simp_all
  then show "field_of (\<lambda>s. (gpu_core_temperature_c (gpu s), gpu_hotspot_temperature_c (gpu s)))
        (read_metrics_from init_reader sensors now) =
       Some (round_or_none (max_opt (pool in_gpu_core_pool sensors)) 1,
             round_or_none (max_opt (pool in_gpu_hotspot_pool sensors)) 1)"
    unfolding read_metrics_from_eq[OF r] by (simp add: field_of_def build_snapshot_def)
next
  show "(in_gpu_core_pool e \<or> in_gpu_hotspot_pool e) = gpu_temp_sensor e"
    by (cases e) (auto simp: in_gpu_core_pool_def in_gpu_hotspot_pool_def)
next
  show "(in_gpu_core_pool e \<and> in_gpu_hotspot_pool e) = False"
    by (cases e) (auto simp: in_gpu_core_pool_def in_gpu_hotspot_pool_def)
next
  show "in_gpu_hotspot_pool (hw, sensor, parent) =
       (gpu_temp_sensor (hw, sensor, parent) \<and>
        (contains ''hot spot'' (lower (or_empty (Name sensor))) \<or>
         contains ''hotspot'' (lower (or_empty (Name sensor))) \<or>
         contains ''junction'' (lower (or_empty (Name sensor)))))"
    by (simp add: in_gpu_hotspot_pool_def hotspot_name_def lname_def)
next
  obtain l pw cc mc where g: "select_gpu_metrics init_reader (collect_sensors
             [device GpuNvidia [reading Temperature ''GPU Core'' (Some (Finite 61)),
                                reading Temperature ''GPU Hot Spot'' (Some (Finite 75)),
                                reading Temperature ''GPU Memory Junction'' (Some (Finite 82)),
                                reading Temperature ''GPU Memory'' (Some (Finite 58))]]) =
     Inr (max_opt (pool in_gpu_core_pool (collect_sensors
             [device GpuNvidia [reading Temperature ''GPU Core'' (Some (Finite 61)),
                                reading Temperature ''GPU Hot Spot'' (Some (Finite 75)),
                                reading Temperature ''GPU Memory Junction'' (Some (Finite 82)),
                                reading Temperature ''GPU Memory'' (Some (Finite 58))]])),
          max_opt (pool in_gpu_hotspot_pool (collect_sensors
             [device GpuNvidia [reading Temperature ''GPU Core'' (Some (Finite 61)),
                                reading Temperature ''GPU Hot Spot'' (Some (Finite 75)),
                                reading Temperature ''GPU Memory Junction'' (Some (Finite 82)),
                                reading Temperature ''GPU Memory'' (Some (Finite 58))]])),
          l, pw, cc, mc)"
    using select_gpu_metrics_temps by blast
  show "map_sum id (\<lambda>(core_temp, hotspot, rest). (core_temp, hotspot))
       (select_gpu_metrics init_reader
          (collect_sensors
             [device GpuNvidia [reading Temperature ''GPU Core'' (Some (Finite 61)),
                                reading Temperature ''GPU Hot Spot'' (Some (Finite 75)),
                                reading Temperature ''GPU Memory Junction'' (Some (Finite 82)),
                                reading Temperature ''GPU Memory'' (Some (Finite 58))]])) =
     Inr (Some 61, Some 82)"
    unfolding g
    by (simp add: collect_sensors_def device_def reading_def pool_Cons pool_Nil gpu_pool_tests
        hotspot_name_def eval_names max_opt_def)
qed

section \<open>Network usage\<close>

text \<open>
  C3. For every sensor list the network usage of the snapshot is the maximum, rounded to one
  decimal, of the usable values within 0 and 100 of the load sensors of network devices,
  and absent when there is none. Values outside the range are dropped, not clamped: the
  values 45, 150 and 30 give 45, and the values 150, -5 and infinity give no usage.
\<close>

theorem C3_network_usage:
  "field_of (\<lambda>s. net_usage_percent (net s)) (read_metrics_from init_reader sensors now) =
     Some (round_or_none (max_opt (pool in_net_pool sensors)) 1)
   \<and> field_of (\<lambda>s. net_usage_percent (net s))
       (read_metrics init_reader
          [device Network [reading Load ''Network Utilization'' (Some (Finite 45))],
           device Network [reading Load ''Network Utilization'' (Some (Finite 150))],
           device Network [reading Load ''Network Utilization'' (Some (Finite 30))]] now) =
     Some (Some 45)
   \<and> field_of (\<lambda>s. net_usage_percent (net s))
       (read_metrics init_reader
          [device Network [reading Load ''Network Utilization'' (Some (Finite 150)),
                           reading Load ''Network Utilization'' (Some (Finite (- 5))),
                           reading Load ''Network Utilization'' (Some PosInf)]] now) =
     Some None"
proof -
  have g: "field_of (\<lambda>s. net_usage_percent (net s)) (read_metrics_from init_reader xs now) =
     Some (round_or_none (max_opt (pool in_net_pool xs)) 1)" for xs
  proof -
    obtain r where r: "select_all init_reader xs = Inr r" using select_all_ok by blast
    have "raw_net_load r = max_opt (pool in_net_pool xs)"
      using select_all_fields(6)[OF r] by (simp add: net_fold)
    then show ?thesis
      unfolding read_metrics_from_eq[OF r] by (simp add: field_of_def build_snapshot_def)
  qed
  show ?thesis
    unfolding read_metrics_def g
    by (simp add: collect_sensors_def device_def reading_def pool_Cons pool_Nil net_pool_test
        max_opt_def py_round_def round_half_even_def)
qed

section \<open>Order normalisation\<close>

text \<open>
  C6. For every list of strings, \<open>_normalize_order\<close> returns the recognised keys (the alias
  \<open>cpu_temp\<close> read as \<open>cpu_core_temp\<close>) in the order of their first occurrence, followed
  by the canonical keys not among them in default order. The result holds every canonical
  key exactly once and nothing else. A load normalises the list parsed from the file; a
  write whose file can be written stores the normalised list in memory, and a load of the
  file written yields that list again. The order \<open>gpu_power, cpu_usage\<close> becomes these two
  keys followed by the other canonical keys in default order.
\<close>

theorem C6_normalize_order:
  "normalize_order order_in =
     recognized_first order_in @
     filter (\<lambda>k. k \<notin> set (recognized_first order_in)) SENSOR_KEYS_DEFAULT
   \<and> distinct (normalize_order order_in)
   \<and> set (normalize_order order_in) = set SENSOR_KEYS_DEFAULT
   \<and> length (normalize_order order_in) = length SENSOR_KEYS_DEFAULT
   \<and> cfg_order (load_ui_config (Ini (Some \<lparr>opt_order = Some t, opt_update_interval_sec = iv\<rparr>))) =
       normalize_order (parse_order t)
   \<and> (writable (files st) \<longrightarrow>
        (\<exists>st'. config_view (post (OrderList order_in) ivf) st = Inr (OkTrue, st') \<and>
               cfg_order (UI_CONFIG st') = normalize_order order_in \<and>
               cfg_order (load_ui_config (config_ini (files st'))) = normalize_order order_in))
   \<and> normalize_order [''gpu_power'', ''cpu_usage''] =
       ''gpu_power'' # ''cpu_usage'' #
       filter (\<lambda>k. k \<notin> {''gpu_power'', ''cpu_usage''}) SENSOR_KEYS_DEFAULT
   \<and> normalize_order [''cpu_temp'', ''fan_speed'', ''cpu_usage'', ''cpu_core_temp'', ''cpu_usage''] =
       ''cpu_core_temp'' # ''cpu_usage'' #
       filter (\<lambda>k. k \<notin> {''cpu_core_temp'', ''cpu_usage''}) SENSOR_KEYS_DEFAULT"
proof (intro conjI impI)
  show "normalize_order order_in =
     recognized_first order_in @
     filter (\<lambda>k. k \<notin> set (recognized_first order_in)) SENSOR_KEYS_DEFAULT"
    by (rule normalize_order_eq)
next
  show "distinct (normalize_order order_in)" by (rule distinct_normalize_order)
next
  show "set (normalize_order order_in) = set SENSOR_KEYS_DEFAULT" by (rule set_normalize_order)
next
  have "card (set (normalize_order order_in)) = card (set SENSOR_KEYS_DEFAULT)"
    by (simp add: set_normalize_order)
  then show "length (normalize_order order_in) = length SENSOR_KEYS_DEFAULT"
    by (simp add: distinct_card distinct_normalize_order distinct_SENSOR_KEYS_DEFAULT)
next
  show "cfg_order (load_ui_config (Ini (Some \<lparr>opt_order = Some t, opt_update_interval_sec = iv\<rparr>))) =
       normalize_order (parse_order t)"
    by (simp add: load_ui_config_def)
next
  assume w: "writable (files st)"
  obtain st' where st': "config_view (post (OrderList order_in) ivf) st = Inr (OkTrue, st')"
    "UI_CONFIG st' = apply_payload \<lparr>pl_order = OrderList order_in, pl_update_interval_sec = ivf\<rparr> (UI_CONFIG st)"
    "cfg_order (load_ui_config (config_ini (files st'))) = normalize_order (cfg_order (UI_CONFIG st'))"
    using config_view_write[OF w] by blast
  have o: "cfg_order (UI_CONFIG st') = normalize_order order_in"
    unfolding st'(2) apply_payload_order by simp
  show "\<exists>st'. config_view (post (OrderList order_in) ivf) st = Inr (OkTrue, st') \<and>
               cfg_order (UI_CONFIG st') = normalize_order order_in \<and>
               cfg_order (load_ui_config (config_ini (files st'))) = normalize_order order_in"
    using st'(1,3) o by (simp add: normalize_order_idem)
next
  show "normalize_order [''gpu_power'', ''cpu_usage''] =
       ''gpu_power'' # ''cpu_usage'' #
       filter (\<lambda>k. k \<notin> {''gpu_power'', ''cpu_usage''}) SENSOR_KEYS_DEFAULT"
    by (simp add: normalize_order_eq recognized_first_def SENSOR_KEYS_DEFAULT_def get_or_key_def
        ALIAS_TO_CANON_def)
next
  show "normalize_order [''cpu_temp'', ''fan_speed'', ''cpu_usage'', ''cpu_core_temp'', ''cpu_usage''] =
       ''cpu_core_temp'' # ''cpu_usage'' #
       filter (\<lambda>k. k \<notin> {''cpu_core_temp'', ''cpu_usage''}) SENSOR_KEYS_DEFAULT"
    by (simp add: normalize_order_eq recognized_first_def SENSOR_KEYS_DEFAULT_def get_or_key_def
        ALIAS_TO_CANON_def)
qed

text \<open>Saving \<open>gpu_power, cpu_usage\<close> on a server started without a file, then loading.\<close>

theorem C6_normalize_order_witness:
  "writable (files fresh_server) \<and>
   (\<exists>st'. config_view (post (OrderList [''gpu_power'', ''cpu_usage'']) IntervalNone) fresh_server =
            Inr (OkTrue, st') \<and>
          cfg_order (load_ui_config (config_ini (files st'))) =
            [''gpu_power'', ''cpu_usage'', ''cpu_core_temp'', ''cpu_hotspot_temp'', ''net_load'',
             ''cpu_clock_max'', ''cpu_clock_avg'', ''cpu_power'', ''ram_usage'', ''ram_used'',
             ''ram_free'', ''gpu_core_temp'', ''gpu_hotspot_temp'', ''gpu_clock'', ''gpu_mem_clock'',
             ''gpu_usage''])"
proof -
  note c = C6_normalize_order[of "[''gpu_power'', ''cpu_usage'']" "''x''" None fresh_server IntervalNone]
  note c6 = c[THEN conjunct2, THEN conjunct2, THEN conjunct2, THEN conjunct2, THEN conjunct2]
  have w: "writable (files fresh_server)" by (rule fresh_server_facts)
  have e: "normalize_order [''gpu_power'', ''cpu_usage''] =
            [''gpu_power'', ''cpu_usage'', ''cpu_core_temp'', ''cpu_hotspot_temp'', ''net_load'',
             ''cpu_clock_max'', ''cpu_clock_avg'', ''cpu_power'', ''ram_usage'', ''ram_used'',
             ''ram_free'', ''gpu_core_temp'', ''gpu_hotspot_temp'', ''gpu_clock'', ''gpu_mem_clock'',
             ''gpu_usage'']"
    unfolding c6[THEN conjunct2, THEN conjunct1] by (simp add: SENSOR_KEYS_DEFAULT_def)
  show ?thesis
    using c6[THEN conjunct1, rule_format, OF w] w unfolding e by blast
qed

section \<open>The update interval\<close>

text \<open>
  C7, as the source has it. A write request that submits a number \<open>v\<close> and whose file can be
  written is answered with \<open>ok\<close>; the in-memory interval becomes \<open>max(0.05, v)\<close>, and the
  file holds that value rounded to three fraction digits, which is what a later load
  yields. An interval read from the file as the number \<open>r\<close> is stored as \<open>max(0.05, r)\<close>.
  A submitted 0.01 is stored and persisted as 0.05.
\<close>

theorem C7_interval_clamped:
  "(writable (files st) \<longrightarrow>
      outcome (config_view (post ord (IntervalNumber v)) st) =
        Some (OkTrue, max (5 / 100) v, py_round (max (5 / 100) v) 3))
   \<and> rounded_to 3 (Some (max (5 / 100) v)) (Some (py_round (max (5 / 100) v) 3))
   \<and> cfg_update_interval_sec
        (load_ui_config (Ini (Some \<lparr>opt_order = t, opt_update_interval_sec = Some (Decimal r)\<rparr>))) =
      max (5 / 100) r
   \<and> outcome (config_view (post OrderNone (IntervalNumber (1 / 100))) fresh_server) =
        Some (OkTrue, 5 / 100, 5 / 100)"
proof (intro conjI impI)
  assume w: "writable (files st)"
  obtain st' where st': "config_view (post ord (IntervalNumber v)) st = Inr (OkTrue, st')"
    "UI_CONFIG st' = apply_payload \<lparr>pl_order = ord, pl_update_interval_sec = IntervalNumber v\<rparr> (UI_CONFIG st)"
    "persisted_interval (files st') = py_round (max (5 / 100) (cfg_update_interval_sec (UI_CONFIG st'))) 3"
    using config_view_write[OF w] by blast
  have m: "cfg_update_interval_sec (UI_CONFIG st') = max (5 / 100) v"
    unfolding st'(2) apply_payload_interval by simp
  have "max (5 / 100) (max (5 / 100) v) = max (5 / 100) v" by simp
  then show "outcome (config_view (post ord (IntervalNumber v)) st) =
        Some (OkTrue, max (5 / 100) v, py_round (max (5 / 100) v) 3)"
    unfolding st'(1) outcome_def by (simp add: st'(3) m)
next
  show "rounded_to 3 (Some (max (5 / 100) v)) (Some (py_round (max (5 / 100) v) 3))"
    by (rule py_round_rounded)
next
  show "cfg_update_interval_sec
        (load_ui_config (Ini (Some \<lparr>opt_order = t, opt_update_interval_sec = Some (Decimal r)\<rparr>))) =
      max (5 / 100) r"
    by (simp add: load_ui_config_def)
next
  obtain st' where st': "config_view (post OrderNone (IntervalNumber (1 / 100))) fresh_server = Inr (OkTrue, st')"
    "UI_CONFIG st' = apply_payload \<lparr>pl_order = OrderNone, pl_update_interval_sec = IntervalNumber (1 / 100)\<rparr> (UI_CONFIG fresh_server)"
    "persisted_interval (files st') = py_round (max (5 / 100) (cfg_update_interval_sec (UI_CONFIG st'))) 3"
    using config_view_write[OF fresh_server_facts(1)] by blast
  have m: "cfg_update_interval_sec (UI_CONFIG st') = 5 / 100"
    unfolding st'(2) apply_payload_interval by simp
  show "outcome (config_view (post OrderNone (IntervalNumber (1 / 100))) fresh_server) =
        Some (OkTrue, 5 / 100, 5 / 100)"
    unfolding st'(1) outcome_def by (simp add: st'(3) m py_round_def round_half_even_def)
qed

text \<open>The write of 1.2346 to a server started without a file: 1.2346 in memory, 1.235 in the file.\<close>

theorem C7_interval_clamped_witness:
  "writable (files fresh_server) \<and>
   outcome (config_view (post OrderNone (IntervalNumber (12346 / 10000))) fresh_server) =
     Some (OkTrue, 12346 / 10000, 1235 / 1000)"
  using C7_interval_clamped[of fresh_server OrderNone "12346 / 10000"]
  by (simp add: fresh_server_facts py_round_def round_half_even_def)

text \<open>
  C7 as stated fails for the persisted value: after the write of 1.2346, which is above
  0.05, the file does not hold \<open>max(0.05, 1.2346)\<close>.
\<close>

theorem C7_persisted_not_unchanged:
  "outcome (config_view (post OrderNone (IntervalNumber (12346 / 10000))) fresh_server) \<noteq>
     Some (OkTrue, max (5 / 100) (12346 / 10000), max (5 / 100) (12346 / 10000))"
proof -
  obtain st' where st': "config_view (post OrderNone (IntervalNumber (12346 / 10000))) fresh_server = Inr (OkTrue, st')"
    "UI_CONFIG st' = apply_payload \<lparr>pl_order = OrderNone, pl_update_interval_sec = IntervalNumber (12346 / 10000)\<rparr> (UI_CONFIG fresh_server)"
    "persisted_interval (files st') = py_round (max (5 / 100) (cfg_update_interval_sec (UI_CONFIG st'))) 3"
    using config_view_write[OF fresh_server_facts(1)] by blast
  have m: "cfg_update_interval_sec (UI_CONFIG st') = 12346 / 10000"
    unfolding st'(2) apply_payload_interval by simp
  show ?thesis
    unfolding st'(1) outcome_def by (simp add: st'(3) m py_round_def round_half_even_def)
qed




end
